theory Spec2Isabelle
  imports Complex_Main
begin

section \<open>Numbers\<close>

text \<open>
  JavaScript numbers are IEEE doubles. The development idealises the finite doubles as
  the reals (no rounding, no overflow) and keeps the one special value that the code of
  \<^verbatim>\<open>OceanGlide.ts\<close> really produces: \<^verbatim>\<open>NaN\<close>. Quantities computed only from finite
  inputs by \<^verbatim>\<open>+ - *\<close>, \<^verbatim>\<open>Math.sin\<close>, \<^verbatim>\<open>Math.abs\<close>, \<^verbatim>\<open>Math.pow\<close> with a positive base,
  \<^verbatim>\<open>Math.min/max\<close> are typed \<open>real\<close>; quantities that flow out of the wave sampler
  are typed \<open>jsnum\<close>. Where a property depends on the rounding itself (the smoothing of
  the input), the function is given a second time with every operation rounded to the
  nearest double.
\<close>

datatype jsnum = NaN | Fin real

fun jadd :: "jsnum \<Rightarrow> jsnum \<Rightarrow> jsnum" where
  "jadd (Fin a) (Fin b) = Fin (a + b)"
| "jadd _ _ = NaN"

fun jsub :: "jsnum \<Rightarrow> jsnum \<Rightarrow> jsnum" where
  "jsub (Fin a) (Fin b) = Fin (a - b)"
| "jsub _ _ = NaN"

fun jmul :: "jsnum \<Rightarrow> jsnum \<Rightarrow> jsnum" where
  "jmul (Fin a) (Fin b) = Fin (a * b)"
| "jmul _ _ = NaN"

fun jneg :: "jsnum \<Rightarrow> jsnum" where
  "jneg (Fin a) = Fin (- a)"
| "jneg NaN = NaN"

text \<open>\<^verbatim>\<open>1 / s\<close> as used by \<^verbatim>\<open>divideScalar\<close>; the callers guard \<open>s\<close> against zero.\<close>

fun jrecip :: "jsnum \<Rightarrow> jsnum" where
  "jrecip (Fin a) = Fin (1 / a)"
| "jrecip NaN = NaN"

fun jsin :: "jsnum \<Rightarrow> jsnum" where
  "jsin (Fin a) = Fin (sin a)"
| "jsin NaN = NaN"

fun jcos :: "jsnum \<Rightarrow> jsnum" where
  "jcos (Fin a) = Fin (cos a)"
| "jcos NaN = NaN"

text \<open>\<^verbatim>\<open>Math.sqrt\<close>: \<^verbatim>\<open>NaN\<close> on a negative argument and on \<^verbatim>\<open>NaN\<close>.\<close>

fun jsqrt :: "jsnum \<Rightarrow> jsnum" where
  "jsqrt (Fin a) = (if a < 0 then NaN else Fin (sqrt a))"
| "jsqrt NaN = NaN"

text \<open>JavaScript truthiness of a number: \<^verbatim>\<open>0\<close> and \<^verbatim>\<open>NaN\<close> are falsy.\<close>

fun truthy :: "jsnum \<Rightarrow> bool" where
  "truthy (Fin a) = (a \<noteq> 0)"
| "truthy NaN = False"

section \<open>three.js vectors\<close>

datatype vec2 = Vector2 (v2x: real) (v2y: real)

datatype vec3 = Vector3 (vx: real) (vy: real) (vz: real)

datatype jvec3 = JVector3 (jx: jsnum) (jy: jsnum) (jz: jsnum)

definition lengthSq2 :: "vec2 \<Rightarrow> real" where
  "lengthSq2 v = v2x v * v2x v + v2y v * v2y v"

definition length2 :: "vec2 \<Rightarrow> real" where
  "length2 v = sqrt (lengthSq2 v)"

text \<open>
  \<^verbatim>\<open>Vector2.normalize()\<close> is \<^verbatim>\<open>this.divideScalar(this.length() || 1)\<close>, and
  \<^verbatim>\<open>divideScalar(s)\<close> is \<^verbatim>\<open>this.multiplyScalar(1 / s)\<close>.
\<close>

definition normalize2 :: "vec2 \<Rightarrow> vec2" where
  "normalize2 v =
     (let l = length2 v; s = 1 / (if l = 0 then 1 else l)
      in Vector2 (v2x v * s) (v2y v * s))"

definition jlength3 :: "jvec3 \<Rightarrow> jsnum" where
  "jlength3 v = jsqrt (jadd (jadd (jmul (jx v) (jx v)) (jmul (jy v) (jy v))) (jmul (jz v) (jz v)))"

definition jnormalize3 :: "jvec3 \<Rightarrow> jvec3" where
  "jnormalize3 v =
     (let l = jlength3 v; s = jrecip (if truthy l then l else Fin 1)
      in JVector3 (jmul (jx v) s) (jmul (jy v) s) (jmul (jz v) s))"

section \<open>Ocean Glide: the CPU wave sampler\<close>

text \<open>The type \<^verbatim>\<open>GW\<close>; its field \<^verbatim>\<open>speed\<close> is written \<open>wspeed\<close> here.\<close>

record GW =
  dir :: vec2
  amp :: real
  len :: real
  steep :: real
  wspeed :: real

definition norm2 :: "vec2 \<Rightarrow> vec2" where
  "norm2 v = (if lengthSq2 v = 0 then Vector2 1 0 else normalize2 v)"

text \<open>
  \<^verbatim>\<open>ToNumber\<close> of a plain object: the object is converted to the string
  \<^verbatim>\<open>"[object Object]"\<close>, which is not a numeral.
\<close>

definition toNumber_object :: "GW \<Rightarrow> jsnum" where
  "toNumber_object w = NaN"

record wave_sampler =
  dirs :: "vec2 list"
  ks :: "real list"
  omegas :: "jsnum list"
  amps :: "real list"
  steeps :: "real list"
  waves_length :: nat

text \<open>
  \<^verbatim>\<open>makeWaveSampler\<close>. The third array is built by
  \<^verbatim>\<open>waves.map((k, i) => Math.sqrt(g * k) * waves[i].speed)\<close>: the callback's first
  argument is an element of \<^verbatim>\<open>waves\<close>, a wave object, and \<^verbatim>\<open>g * k\<close> multiplies a
  number by that object.
\<close>

definition makeWaveSampler :: "GW list \<Rightarrow> wave_sampler" where
  "makeWaveSampler waves =
     (let TWO_PI = pi * 2; g = 9.81 in
      \<lparr> dirs = map (\<lambda>w. normalize2 (dir w)) waves,
        ks = map (\<lambda>w. TWO_PI / len w) waves,
        omegas = map (\<lambda>(k, i). jmul (jsqrt (jmul (Fin g) (toNumber_object k))) (Fin (wspeed (waves ! i))))
                   (zip waves [0..<length waves]),
        amps = map amp waves,
        steeps = map steep waves,
        waves_length = length waves \<rparr>)"

record wave_acc =
  dispX :: jsnum
  dispY :: jsnum
  dispZ :: jsnum
  dHdX :: jsnum
  dHdZ :: jsnum

text \<open>The body of the \<^verbatim>\<open>for\<close> loop of \<^verbatim>\<open>heightAndNormal\<close>, for index \<open>i\<close>.\<close>

definition wave_step :: "wave_sampler \<Rightarrow> real \<Rightarrow> real \<Rightarrow> real \<Rightarrow> wave_acc \<Rightarrow> nat \<Rightarrow> wave_acc" where
  "wave_step smp x z t acc i =
     (let d = dirs smp ! i; k = ks smp ! i; A = amps smp ! i; Q = steeps smp ! i;
          w = omegas smp ! i;
          phase = jsub (Fin (k * (v2x d * x + v2y d * z))) (jmul w (Fin t));
          sinP = jsin phase; cosP = jcos phase
      in \<lparr> dispX = jadd (dispX acc) (jmul (Fin (Q * A * v2x d)) cosP),
           dispY = jadd (dispY acc) (jmul (Fin A) sinP),
           dispZ = jadd (dispZ acc) (jmul (Fin (Q * A * v2y d)) cosP),
           dHdX = jadd (dHdX acc) (jmul (Fin (A * k * v2x d)) cosP),
           dHdZ = jadd (dHdZ acc) (jmul (Fin (A * k * v2y d)) cosP) \<rparr>)"

record surface_sample =
  height :: jsnum
  normal :: jvec3
  disp :: jvec3

definition heightAndNormal :: "wave_sampler \<Rightarrow> real \<Rightarrow> real \<Rightarrow> real \<Rightarrow> surface_sample" where
  "heightAndNormal smp x z t =
     (let acc = foldl (wave_step smp x z t)
                  \<lparr> dispX = Fin 0, dispY = Fin 0, dispZ = Fin 0, dHdX = Fin 0, dHdZ = Fin 0 \<rparr>
                  [0..<waves_length smp];
          y = dispY acc;
          n = jnormalize3 (JVector3 (jneg (dHdX acc)) (Fin 1) (jneg (dHdZ acc)))
      in \<lparr> height = y, normal = n, disp = JVector3 (dispX acc) (dispY acc) (dispZ acc) \<rparr>)"

text \<open>The wave field that \<^verbatim>\<open>initOceanGlide\<close> passes to \<^verbatim>\<open>makeWaveSampler\<close>.\<close>

definition waves :: "GW list" where
  "waves =
     [ \<lparr> dir = norm2 (Vector2 1 0), amp = 0.35, len = 16, steep = 0.55, wspeed = 1.0 \<rparr>,
       \<lparr> dir = norm2 (Vector2 0.2 0.98), amp = 0.18, len = 7, steep = 0.42, wspeed = 1.2 \<rparr>,
       \<lparr> dir = norm2 (Vector2 (-0.9) 0.4), amp = 0.08, len = 3.5, steep = 0.35, wspeed = 1.6 \<rparr> ]"

definition sampler :: wave_sampler where
  "sampler = makeWaveSampler waves"

section \<open>Ocean Glide: input smoothing and the boat\<close>

text \<open>\<^verbatim>\<open>THREE.MathUtils.lerp(x, y, t)\<close> is \<^verbatim>\<open>(1 - t) * x + t * y\<close>.\<close>

definition lerp :: "real \<Rightarrow> real \<Rightarrow> real \<Rightarrow> real" where
  "lerp x y t = (1 - t) * x + t * y"

text \<open>\<^verbatim>\<open>THREE.MathUtils.clamp(value, min, max)\<close> is \<^verbatim>\<open>Math.max(min, Math.min(max, value))\<close>.\<close>

definition clamp :: "real \<Rightarrow> real \<Rightarrow> real \<Rightarrow> real" where
  "clamp v lo hi = max lo (min hi v)"

definition MAX_FWD :: real where "MAX_FWD = 14"
definition MAX_REV :: real where "MAX_REV = 3"
definition ACCEL :: real where "ACCEL = 7.0"
definition DRAG :: real where "DRAG = 0.25"
definition STEER_BASE :: real where "STEER_BASE = 0.7"
definition STEER_SPEED_FACTOR :: real where "STEER_SPEED_FACTOR = 0.12"
definition hullOffset :: real where "hullOffset = 0.25"

text \<open>
  The physics state of \<^verbatim>\<open>initOceanGlide\<close>: the closure variables \<^verbatim>\<open>speed\<close>,
  \<^verbatim>\<open>heading\<close>, \<^verbatim>\<open>targetThrottle\<close>, \<^verbatim>\<open>targetSteer\<close> and \<^verbatim>\<open>boat.position\<close>.
\<close>

record boat_state =
  speed :: real
  heading :: real
  targetThrottle :: real
  targetSteer :: real
  boat_x :: real
  boat_y :: jsnum
  boat_z :: real

definition boat_init :: boat_state where
  "boat_init = \<lparr> speed = 0, heading = 0, targetThrottle = 0, targetSteer = 0,
                 boat_x = 0, boat_y = Fin 0, boat_z = 0 \<rparr>"

text \<open>
  \<^verbatim>\<open>updateInput\<close>; \<open>pressed\<close> is \<^verbatim>\<open>keys.pressed\<close>. \<^verbatim>\<open>Math.pow(0.001, dt)\<close> has a
  positive base, so it is \<open>0.001 powr dt\<close>. This is the function in exact arithmetic;
  \<open>updateInput_double\<close> below is the same function with the rounding of the doubles.
\<close>

definition updateInput :: "(string \<Rightarrow> bool) \<Rightarrow> real \<Rightarrow> boat_state \<Rightarrow> boat_state" where
  "updateInput pressed dt st =
     (let wantThrottle = (if pressed ''w'' then 1 else 0) - (if pressed ''s'' then 1 else 0);
          wantSteer = (if pressed ''d'' then 1 else 0) - (if pressed ''a'' then 1 else 0)
      in st \<lparr> targetThrottle := lerp (targetThrottle st) wantThrottle (1 - 0.001 powr dt),
              targetSteer := lerp (targetSteer st) wantSteer (1 - 0.001 powr dt) \<rparr>)"

text \<open>
  \<^verbatim>\<open>updateBoat\<close>, first part: speed, heading and the horizontal position, up to the call
  of the sampler.
\<close>

definition updateBoat_motion :: "real \<Rightarrow> boat_state \<Rightarrow> boat_state" where
  "updateBoat_motion dt st =
     (let accel = ACCEL * targetThrottle st;
          speed1 = speed st + accel * dt;
          drag = DRAG * speed1 * \<bar>speed1\<bar>;
          speed2 = speed1 - drag * dt;
          speed3 = clamp speed2 (- MAX_REV) MAX_FWD;
          steerRate = STEER_BASE + STEER_SPEED_FACTOR * \<bar>speed3\<bar>;
          heading1 = heading st - targetSteer st * steerRate * dt;
          fwd = Vector3 (- sin heading1) 0 (- cos heading1)
      in st \<lparr> speed := speed3, heading := heading1,
              boat_x := boat_x st + vx fwd * (speed3 * dt),
              boat_y := jadd (boat_y st) (Fin (vy fwd * (speed3 * dt))),
              boat_z := boat_z st + vz fwd * (speed3 * dt) \<rparr>)"

text \<open>The sample \<^verbatim>\<open>w\<close> that \<^verbatim>\<open>updateBoat\<close> takes at the new position.\<close>

definition updateBoat_sample :: "wave_sampler \<Rightarrow> real \<Rightarrow> real \<Rightarrow> boat_state \<Rightarrow> surface_sample" where
  "updateBoat_sample smp dt t st =
     (let st1 = updateBoat_motion dt st in heightAndNormal smp (boat_x st1) (boat_z st1) t)"

text \<open>
  \<^verbatim>\<open>targetUp\<close>, the vector that \<^verbatim>\<open>updateBoat\<close> hands to
  \<^verbatim>\<open>Quaternion.setFromUnitVectors\<close>; the source passes \<^verbatim>\<open>w.normal\<close> as it is.
\<close>

definition updateBoat_targetUp :: "wave_sampler \<Rightarrow> real \<Rightarrow> real \<Rightarrow> boat_state \<Rightarrow> jvec3" where
  "updateBoat_targetUp smp dt t st = normal (updateBoat_sample smp dt t st)"

text \<open>
  \<^verbatim>\<open>updateBoat\<close> on the physics state. The rest of the function (the quaternion of the
  boat, the wake meshes, the HUD) writes to three.js objects and the DOM only and reads
  none of them back into the physics state.
\<close>

definition updateBoat :: "wave_sampler \<Rightarrow> real \<Rightarrow> real \<Rightarrow> boat_state \<Rightarrow> boat_state" where
  "updateBoat smp dt t st =
     (updateBoat_motion dt st)
       \<lparr> boat_y := jadd (height (updateBoat_sample smp dt t st)) (Fin hullOffset) \<rparr>"

text \<open>
  One frame of \<^verbatim>\<open>tick\<close> on the physics state (\<^verbatim>\<open>updateBuoys\<close> and \<^verbatim>\<open>updateCamera\<close>
  move the buoys and the camera only).
\<close>

definition tick :: "wave_sampler \<Rightarrow> bool \<Rightarrow> (string \<Rightarrow> bool) \<Rightarrow> real \<Rightarrow> real \<Rightarrow> boat_state \<Rightarrow> boat_state" where
  "tick smp running pressed dt t st =
     (if running then updateBoat smp dt t (updateInput pressed dt st) else st)"

text \<open>A run of frames while the game is running; a frame is \<open>(pressed, dt, t)\<close>.\<close>

definition run_ticks :: "wave_sampler \<Rightarrow> ((string \<Rightarrow> bool) \<times> real \<times> real) list \<Rightarrow> boat_state \<Rightarrow> boat_state" where
  "run_ticks smp frames st = foldl (\<lambda>s (pressed, dt, t). tick smp True pressed dt t s) st frames"

text \<open>A run of \<^verbatim>\<open>updateInput\<close> alone, the keys held fixed, one call per tick size.\<close>

definition run_input :: "(string \<Rightarrow> bool) \<Rightarrow> real list \<Rightarrow> boat_state \<Rightarrow> boat_state" where
  "run_input pressed dts st = foldl (\<lambda>s dt. updateInput pressed dt s) st dts"

text \<open>
  The height as the specification states it (section 4.1), for comparison with the
  sampler of the source.
\<close>

definition spec_height :: "GW list \<Rightarrow> real \<Rightarrow> real \<Rightarrow> real \<Rightarrow> real" where
  "spec_height ws x z t =
     (\<Sum>w\<leftarrow>ws. amp w * sin ((2 * pi / len w) * (v2x (dir w) * x + v2y (dir w) * z)
                        - sqrt (9.81 * (2 * pi / len w)) * wspeed w * t))"

text \<open>JavaScript \<^verbatim>\<open><=\<close> and \<^verbatim>\<open>Math.abs\<close> on numbers: a comparison with \<^verbatim>\<open>NaN\<close> is false.\<close>

fun jle :: "jsnum \<Rightarrow> jsnum \<Rightarrow> bool" where
  "jle (Fin a) (Fin b) = (a \<le> b)"
| "jle _ _ = False"

fun jabs :: "jsnum \<Rightarrow> jsnum" where
  "jabs (Fin a) = Fin \<bar>a\<bar>"
| "jabs NaN = NaN"

section \<open>Ocean Glide: input smoothing in doubles\<close>

text \<open>Rounding to the nearest integer, ties to the even one.\<close>

definition rne :: "real \<Rightarrow> int" where
  "rne y =
     (let f = \<lfloor>y\<rfloor>; d = y - of_int f
      in if d < 1 / 2 then f else if 1 / 2 < d then f + 1 else if even f then f else f + 1)"

text \<open>
  The double nearest to a real (53 significant bits, ties to even), as every arithmetic
  operation of the source rounds its exact result. The exponent range of doubles is not
  modelled: no overflow, no subnormal numbers.
\<close>

definition round_double :: "real \<Rightarrow> real" where
  "round_double x =
     (if x = 0 then 0
      else (let e = \<lfloor>log 2 \<bar>x\<bar>\<rfloor> - 52
            in of_int (rne (x / 2 powr of_int e)) * 2 powr of_int e))"

text \<open>
  \<^verbatim>\<open>Math.pow\<close> on a positive base, as the correctly rounded power. (ECMAScript asks for an
  approximation only; at the exponents \<open>1\<close> and \<open>2\<close> engines return \<open>x\<close> and the rounded
  \<open>x * x\<close>, which is this value.)
\<close>

definition Math_pow :: "real \<Rightarrow> real \<Rightarrow> real" where
  "Math_pow b x = round_double (b powr x)"

text \<open>\<^verbatim>\<open>THREE.MathUtils.lerp\<close> in doubles: every operation rounds.\<close>

definition lerp_double :: "real \<Rightarrow> real \<Rightarrow> real \<Rightarrow> real" where
  "lerp_double x y t =
     round_double (round_double (round_double (1 - t) * x) + round_double (t * y))"

text \<open>
  \<^verbatim>\<open>updateInput\<close> in doubles: the literal \<^verbatim>\<open>0.001\<close> is the double nearest to one
  thousandth, and \<^verbatim>\<open>Math.pow\<close>, the subtraction and the three operations of \<^verbatim>\<open>lerp\<close> round.
\<close>

definition updateInput_double :: "(string \<Rightarrow> bool) \<Rightarrow> real \<Rightarrow> boat_state \<Rightarrow> boat_state" where
  "updateInput_double pressed dt st =
     (let wantThrottle = (if pressed ''w'' then 1 else 0) - (if pressed ''s'' then 1 else 0);
          wantSteer = (if pressed ''d'' then 1 else 0) - (if pressed ''a'' then 1 else 0)
      in st \<lparr> targetThrottle :=
                lerp_double (targetThrottle st) wantThrottle
                  (round_double (1 - Math_pow (round_double 0.001) dt)),
              targetSteer :=
                lerp_double (targetSteer st) wantSteer
                  (round_double (1 - Math_pow (round_double 0.001) dt)) \<rparr>)"

text \<open>A run of \<^verbatim>\<open>updateInput\<close> in doubles, the keys held fixed.\<close>

definition run_input_double :: "(string \<Rightarrow> bool) \<Rightarrow> real list \<Rightarrow> boat_state \<Rightarrow> boat_state" where
  "run_input_double pressed dts st = foldl (\<lambda>s dt. updateInput_double pressed dt s) st dts"

section \<open>Space Runner: units, selection and commands\<close>

text \<open>The \<^verbatim>\<open>THREE.Vector3\<close> methods that \<^verbatim>\<open>SpaceRunner.ts\<close> calls, on real vectors.\<close>

definition length3 :: "vec3 \<Rightarrow> real" where
  "length3 v = sqrt (vx v * vx v + vy v * vy v + vz v * vz v)"

definition sub3 :: "vec3 \<Rightarrow> vec3 \<Rightarrow> vec3" where
  "sub3 a b = Vector3 (vx a - vx b) (vy a - vy b) (vz a - vz b)"

definition add3 :: "vec3 \<Rightarrow> vec3 \<Rightarrow> vec3" where
  "add3 a b = Vector3 (vx a + vx b) (vy a + vy b) (vz a + vz b)"

definition multiplyScalar :: "vec3 \<Rightarrow> real \<Rightarrow> vec3" where
  "multiplyScalar v s = Vector3 (vx v * s) (vy v * s) (vz v * s)"

definition setY :: "vec3 \<Rightarrow> real \<Rightarrow> vec3" where
  "setY v y = Vector3 (vx v) y (vz v)"

definition normalize3 :: "vec3 \<Rightarrow> vec3" where
  "normalize3 v = (let l = length3 v in multiplyScalar v (1 / (if l = 0 then 1 else l)))"

definition addScaledVector :: "vec3 \<Rightarrow> vec3 \<Rightarrow> real \<Rightarrow> vec3" where
  "addScaledVector a v s = Vector3 (vx a + vx v * s) (vy a + vy v * s) (vz a + vz v * s)"

definition distanceTo :: "vec3 \<Rightarrow> vec3 \<Rightarrow> real" where
  "distanceTo a b = length3 (sub3 a b)"

text \<open>\<^verbatim>\<open>Math.hypot(a, b)\<close>.\<close>

definition hypot :: "real \<Rightarrow> real \<Rightarrow> real" where
  "hypot a b = sqrt (a * a + b * b)"

datatype material = friendlyMat | selectedMat

text \<open>
  The type \<^verbatim>\<open>Unit\<close>. \<open>unit_id\<close> is \<^verbatim>\<open>id\<close>, \<open>position\<close> is \<^verbatim>\<open>mesh.position\<close>,
  \<open>material\<close> is the material last copied into \<^verbatim>\<open>mesh.material\<close>, \<open>selRing_visible\<close> is
  \<^verbatim>\<open>selRing.visible\<close>, \<open>unit_speed\<close> is \<^verbatim>\<open>speed\<close>. Every unit has a mesh of its own, so
  a mesh is identified by the id of its unit.
\<close>

record rts_unit =
  unit_id :: nat
  position :: vec3
  material :: material
  selRing_visible :: bool
  target :: "vec3 option"
  unit_speed :: real
  selected :: bool
  hadTarget :: bool

record order_marker =
  marker_position :: vec3
  ttl :: real

datatype event =
    SelectionChanged nat
  | CommandMove real real nat
  | UnitArrived nat real real
  | GameStarted
  | GamePaused

text \<open>
  What the handlers take from their surroundings: whether the host supplied the optional
  callback \<^verbatim>\<open>onEvent\<close>, and the three picking functions, which go through the camera and
  the raycaster of three.js (\<open>pickUnit\<close> gives the id of the unit whose mesh is hit).
\<close>

record env =
  hasOnEvent :: bool
  pickGround :: "real \<Rightarrow> real \<Rightarrow> vec3 option"
  pickUnit :: "real \<Rightarrow> real \<Rightarrow> nat option"
  projectToScreen :: "vec3 \<Rightarrow> real \<times> real"

record mouse_event =
  button :: nat
  clientX :: real
  clientY :: real
  shiftKey :: bool

record keyboard_event =
  ctrlKey :: bool
  metaKey :: bool
  key :: string

text \<open>
  The closure state of \<^verbatim>\<open>initSpaceRunner\<close> that the handlers read and write. The
  decorations (the selection box and the cursor in the DOM, the ground rectangle and the
  cursor ring in the scene) and \<^verbatim>\<open>lastMouse\<close>, which nothing reads, are left out.
\<close>

record game =
  units :: "rts_unit list"
  markers :: "order_marker list"
  dragging :: bool
  dragStart :: "real \<times> real"
  dragStartGround :: "vec3 option"

text \<open>\<^verbatim>\<open>onEvent?.(evt)\<close>: the events handed to the host, in order.\<close>

definition emit :: "env \<Rightarrow> event \<Rightarrow> event list" where
  "emit e evt = (if hasOnEvent e then [evt] else [])"

text \<open>\<^verbatim>\<open>spawnUnit\<close> and the initial roster of twelve units.\<close>

definition spawnUnit :: "nat \<Rightarrow> real \<Rightarrow> real \<Rightarrow> rts_unit" where
  "spawnUnit uid x z =
     \<lparr> unit_id = uid, position = Vector3 x 0.5 z, material = friendlyMat,
       selRing_visible = False, target = None, unit_speed = 6, selected = False,
       hadTarget = False \<rparr>"

definition initial_units :: "rts_unit list" where
  "initial_units =
     map (\<lambda>n. spawnUnit (Suc n) (- 8 + real (n mod 4) * 2) (- 6 + real (n div 4) * 2)) [0..<12]"

text \<open>The loop bodies of \<^verbatim>\<open>clearSelection\<close> and \<^verbatim>\<open>applySelectionFilter\<close>.\<close>

definition deselect_unit :: "rts_unit \<Rightarrow> rts_unit" where
  "deselect_unit u = u \<lparr> selected := False, material := friendlyMat, selRing_visible := False \<rparr>"

definition select_unit :: "rts_unit \<Rightarrow> rts_unit" where
  "select_unit u = u \<lparr> selected := True, material := selectedMat, selRing_visible := True \<rparr>"

definition clearSelection :: "env \<Rightarrow> rts_unit list \<Rightarrow> rts_unit list \<times> event list" where
  "clearSelection e us = (map deselect_unit us, emit e (SelectionChanged 0))"

text \<open>\<^verbatim>\<open>applySelectionFilter(filter, additive)\<close>.\<close>

definition applySelectionFilter ::
  "env \<Rightarrow> (rts_unit \<Rightarrow> bool) \<Rightarrow> bool \<Rightarrow> rts_unit list \<Rightarrow> rts_unit list \<times> event list" where
  "applySelectionFilter e f additive_flag us =
     (let (us1, ev1) = (if \<not> additive_flag then clearSelection e us else (us, []));
          us2 = map (\<lambda>u. if f u then select_unit u else u) us1;
          count = length (filter f us1)
      in (us2, ev1 @ emit e (SelectionChanged count)))"

text \<open>
  \<^verbatim>\<open>formationOffsets\<close>: \<^verbatim>\<open>Math.ceil(Math.sqrt(n))\<close>, \<^verbatim>\<open>Math.floor(i / side)\<close> and
  \<^verbatim>\<open>i % side\<close> on a count \<open>n\<close> and indices below it.
\<close>

definition formationOffsets :: "nat \<Rightarrow> vec3 list" where
  "formationOffsets n =
     (let side = nat \<lceil>sqrt (real n)\<rceil>; spacing = 1.4; half = (real side - 1) * 0.5
      in map (\<lambda>i. let r = i div side; c = i mod side
                  in Vector3 ((real c - half) * spacing) 0 ((real r - half) * spacing))
           [0..<n])"

definition spawnOrderMarker :: "vec3 \<Rightarrow> order_marker list \<Rightarrow> order_marker list" where
  "spawnOrderMarker p ms = ms @ [\<lparr> marker_position = setY p 0.03, ttl = 1.0 \<rparr>]"

definition onMouseDown :: "env \<Rightarrow> mouse_event \<Rightarrow> game \<Rightarrow> game" where
  "onMouseDown e ev st =
     (if button ev = 0
      then st \<lparr> dragging := True, dragStart := (clientX ev, clientY ev),
                dragStartGround := pickGround e (clientX ev) (clientY ev) \<rparr>
      else st)"

text \<open>The two filters of the box selection in \<^verbatim>\<open>onMouseUp\<close>.\<close>

definition world_rect_filter :: "vec3 \<Rightarrow> vec3 \<Rightarrow> rts_unit \<Rightarrow> bool" where
  "world_rect_filter g0 g1 u =
     (let minX = min (vx g0) (vx g1); maxX = max (vx g0) (vx g1);
          minZ = min (vz g0) (vz g1); maxZ = max (vz g0) (vz g1);
          p = position u
      in vx p \<ge> minX \<and> vx p \<le> maxX \<and> vz p \<ge> minZ \<and> vz p \<le> maxZ)"

definition screen_rect_filter :: "env \<Rightarrow> real \<times> real \<Rightarrow> real \<times> real \<Rightarrow> rts_unit \<Rightarrow> bool" where
  "screen_rect_filter e a b u =
     (let x1 = min (fst a) (fst b); y1 = min (snd a) (snd b);
          x2 = max (fst a) (fst b); y2 = max (snd a) (snd b);
          s = projectToScreen e (position u)
      in fst s \<ge> x1 \<and> fst s \<le> x2 \<and> snd s \<ge> y1 \<and> snd s \<le> y2)"

definition onMouseUp :: "env \<Rightarrow> mouse_event \<Rightarrow> game \<Rightarrow> game \<times> event list" where
  "onMouseUp e ev st =
     (if button ev = 0 then
        (let moved = hypot (clientX ev - fst (dragStart st)) (clientY ev - snd (dragStart st)) > 5;
             (us, evs) =
               (if \<not> moved then
                  (case pickUnit e (clientX ev) (clientY ev) of
                     Some hitUnit \<Rightarrow>
                       applySelectionFilter e (\<lambda>u. unit_id u = hitUnit) (shiftKey ev) (units st)
                   | None \<Rightarrow>
                       if \<not> shiftKey ev then clearSelection e (units st) else (units st, []))
                else
                  (case (dragStartGround st, pickGround e (clientX ev) (clientY ev)) of
                     (Some g0, Some endGround) \<Rightarrow>
                       applySelectionFilter e (world_rect_filter g0 endGround) (shiftKey ev) (units st)
                   | _ \<Rightarrow>
                       applySelectionFilter e
                         (screen_rect_filter e (dragStart st) (clientX ev, clientY ev))
                         (shiftKey ev) (units st)))
         in (st \<lparr> units := us, dragging := False, dragStartGround := None \<rparr>, evs))
      else (st, []))"

text \<open>\<^verbatim>\<open>e.key.toLowerCase() === 'a'\<close>.\<close>

definition key_is_a :: "string \<Rightarrow> bool" where
  "key_is_a k = (k = ''a'' \<or> k = ''A'')"

definition onKeyDown :: "env \<Rightarrow> keyboard_event \<Rightarrow> game \<Rightarrow> game \<times> event list" where
  "onKeyDown e ev st =
     (if (ctrlKey ev \<or> metaKey ev) \<and> key_is_a (key ev)
      then (let (us, evs) = applySelectionFilter e (\<lambda>u. True) False (units st)
            in (st \<lparr> units := us \<rparr>, evs))
      else (st, []))"

text \<open>
  \<^verbatim>\<open>selected.forEach((u, i) => { u.target = p.clone().add(offs[i]); u.hadTarget = true })\<close>
  over \<^verbatim>\<open>selected = units.filter(u => u.selected)\<close>: the selected units are visited in
  the order of \<^verbatim>\<open>units\<close>, \<open>i\<close> counting them.
\<close>

fun assign_targets :: "vec3 \<Rightarrow> vec3 list \<Rightarrow> nat \<Rightarrow> rts_unit list \<Rightarrow> rts_unit list" where
  "assign_targets p offs i [] = []"
| "assign_targets p offs i (u # us) =
     (if selected u
      then u \<lparr> target := Some (add3 p (offs ! i)), hadTarget := True \<rparr>
             # assign_targets p offs (Suc i) us
      else u # assign_targets p offs i us)"

definition onContextMenu :: "env \<Rightarrow> mouse_event \<Rightarrow> game \<Rightarrow> game \<times> event list" where
  "onContextMenu e ev st =
     (case pickGround e (clientX ev) (clientY ev) of
        None \<Rightarrow> (st, [])
      | Some p \<Rightarrow>
          (let sel = filter selected (units st) in
           if length sel = 0 then (st, [])
           else (let offs = formationOffsets (length sel)
                 in (st \<lparr> units := assign_targets p offs 0 (units st),
                          markers := spawnOrderMarker p (markers st) \<rparr>,
                     emit e (CommandMove (vx p) (vz p) (length sel))))))"

definition sepRadius :: real where "sepRadius = 1.2"

text \<open>The inner loop of \<^verbatim>\<open>updateUnits\<close>: the separation vector of the unit at index \<open>i\<close>.\<close>

definition separation :: "rts_unit list \<Rightarrow> nat \<Rightarrow> vec3" where
  "separation us i =
     foldl (\<lambda>sep j.
              if j = i then sep
              else (let d = distanceTo (position (us ! i)) (position (us ! j))
                    in if d > 0 \<and> d < sepRadius
                       then add3 sep
                              (multiplyScalar
                                 (normalize3 (setY (sub3 (position (us ! i)) (position (us ! j))) 0))
                                 ((sepRadius - d) * 2))
                       else sep))
       (Vector3 0 0 0) [0..<length us]"

text \<open>The seek part of the loop body of \<^verbatim>\<open>updateUnits\<close>, for one unit.\<close>

definition seek :: "env \<Rightarrow> real \<Rightarrow> rts_unit \<Rightarrow> rts_unit \<times> event list" where
  "seek e dt u =
     (case target u of
        None \<Rightarrow> (u, [])
      | Some tg \<Rightarrow>
          (let to = setY (sub3 tg (position u)) 0; dist = length3 to in
           if dist < 0.12 then
             (if hadTarget u
              then (u \<lparr> target := None, hadTarget := False \<rparr>,
                    emit e (UnitArrived (unit_id u) (vx (position u)) (vz (position u))))
              else (u \<lparr> target := None \<rparr>, []))
           else (u \<lparr> position := addScaledVector (position u) (normalize3 to) (unit_speed u * dt) \<rparr>,
                 [])))"

text \<open>The body of the outer loop of \<^verbatim>\<open>updateUnits\<close>, for the unit at index \<open>i\<close>.\<close>

definition updateUnit :: "env \<Rightarrow> real \<Rightarrow> rts_unit list \<times> event list \<Rightarrow> nat \<Rightarrow> rts_unit list \<times> event list" where
  "updateUnit e dt s i =
     (let us = fst s;
          u = us ! i;
          sep = separation us i;
          u1 = u \<lparr> position := addScaledVector (position u) sep dt \<rparr>;
          (u2, evs) = seek e dt u1
      in (us[i := u2], snd s @ evs))"

definition updateUnits :: "env \<Rightarrow> real \<Rightarrow> rts_unit list \<Rightarrow> rts_unit list \<times> event list" where
  "updateUnits e dt us = foldl (updateUnit e dt) (us, []) [0..<length us]"

text \<open>The filter that the box selection of \<^verbatim>\<open>onMouseUp\<close> applies.\<close>

definition box_filter :: "env \<Rightarrow> mouse_event \<Rightarrow> game \<Rightarrow> rts_unit \<Rightarrow> bool" where
  "box_filter e ev st =
     (case (dragStartGround st, pickGround e (clientX ev) (clientY ev)) of
        (Some g0, Some endGround) \<Rightarrow> world_rect_filter g0 endGround
      | _ \<Rightarrow> screen_rect_filter e (dragStart st) (clientX ev, clientY ev))"

text \<open>
  A fixture: units A (id 1) at \<open>(0, 0)\<close>, B (id 2, selected) at \<open>(5, 5)\<close> and C (id 3) at
  \<open>(1, 1)\<close>; a drag from the ground point \<open>(-1, -1)\<close> to the ground point \<open>(2, 2)\<close>, fifty
  pixels long; Ctrl+A.
\<close>

definition fixture_env :: env where
  "fixture_env = \<lparr> hasOnEvent = True, pickGround = (\<lambda>x y. Some (Vector3 2 0 2)),
                    pickUnit = (\<lambda>x y. None), projectToScreen = (\<lambda>v. (0, 0)) \<rparr>"

definition fixture_units :: "rts_unit list" where
  "fixture_units = [spawnUnit 1 0 0, select_unit (spawnUnit 2 5 5), spawnUnit 3 1 1]"

definition fixture_game :: game where
  "fixture_game = \<lparr> units = fixture_units, markers = [], dragging = True, dragStart = (0, 0),
                     dragStartGround = Some (Vector3 (- 1) 0 (- 1)) \<rparr>"

definition fixture_release :: mouse_event where
  "fixture_release = \<lparr> button = 0, clientX = 30, clientY = 40, shiftKey = False \<rparr>"

definition fixture_ctrl_a :: keyboard_event where
  "fixture_ctrl_a = \<lparr> ctrlKey = True, metaKey = False, key = ''a'' \<rparr>"

text \<open>A fixture: four selected units and a right click on the ground point \<open>(2, 2)\<close>.\<close>

definition fixture_squad :: game where
  "fixture_squad = \<lparr> units = map select_unit
                                 [spawnUnit 1 0 0, spawnUnit 2 2 0, spawnUnit 3 4 0, spawnUnit 4 6 0],
                      markers = [], dragging = False, dragStart = (0, 0), dragStartGround = None \<rparr>"

definition fixture_rightclick :: mouse_event where
  "fixture_rightclick = \<lparr> button = 2, clientX = 10, clientY = 10, shiftKey = False \<rparr>"

text \<open>A unit that has a target has its flag \<^verbatim>\<open>hadTarget\<close> set.\<close>

definition flag_set :: "rts_unit \<Rightarrow> bool" where
  "flag_set u = (target u = None \<or> hadTarget u)"

text \<open>
  A fixture: one selected unit (id 1) at \<open>(0, 0)\<close>, never commanded, and a right click on
  the ground point \<open>(0, 0)\<close>; \<open>commanded_unit\<close> is that unit after the command.
\<close>

definition arrival_env :: env where
  "arrival_env = \<lparr> hasOnEvent = True, pickGround = (\<lambda>x y. Some (Vector3 0 0 0)),
                    pickUnit = (\<lambda>x y. None), projectToScreen = (\<lambda>v. (0, 0)) \<rparr>"

definition arrival_game :: game where
  "arrival_game = \<lparr> units = [select_unit (spawnUnit 1 0 0)], markers = [], dragging = False,
                     dragStart = (0, 0), dragStartGround = None \<rparr>"

definition commanded_unit :: rts_unit where
  "commanded_unit = (select_unit (spawnUnit 1 0 0)) \<lparr> target := Some (Vector3 0 0 0), hadTarget := True \<rparr>"

text \<open>The state of the outer loop of \<^verbatim>\<open>updateUnits\<close> after the first \<open>m\<close> units.\<close>

definition updateUnits_upto :: "env \<Rightarrow> real \<Rightarrow> rts_unit list \<Rightarrow> nat \<Rightarrow> rts_unit list \<times> event list" where
  "updateUnits_upto e dt us m = foldl (updateUnit e dt) (us, []) [0..<m]"

text \<open>
  The unit at index \<open>i\<close> after the separation step of its turn in \<^verbatim>\<open>updateUnits\<close>: the
  units before it have had their turn, and its position has been pushed by \<open>sep * dt\<close>.
\<close>

definition separated :: "env \<Rightarrow> real \<Rightarrow> rts_unit list \<Rightarrow> nat \<Rightarrow> rts_unit" where
  "separated e dt us i =
     (let cur = fst (updateUnits_upto e dt us i)
      in (cur ! i) \<lparr> position := addScaledVector (position (cur ! i)) (separation cur i) dt \<rparr>)"

text \<open>The horizontal distance that \<^verbatim>\<open>updateUnits\<close> compares with the arrival distance.\<close>

definition remaining :: "vec3 \<Rightarrow> rts_unit \<Rightarrow> real" where
  "remaining tg u = length3 (setY (sub3 tg (position u)) 0)"

text \<open>A fixture: a unit on its way to a target five units away, and an idle unit.\<close>

definition travelling_unit :: rts_unit where
  "travelling_unit = (spawnUnit 1 0 0) \<lparr> target := Some (Vector3 3 0 4), hadTarget := True \<rparr>"

definition idle_unit :: rts_unit where
  "idle_unit = spawnUnit 1 0 0"

section \<open>Ocean Glide: facts\<close>

lemma jadd_NaN_right: "jadd a NaN = NaN"
  by (cases a) simp_all

lemma jmul_NaN_right: "jmul a NaN = NaN"
  by (cases a) simp_all

lemma jsub_NaN_right: "jsub a NaN = NaN"
  by (cases a) simp_all

lemma omegas_NaN:
  assumes "i < length ws"
  shows "omegas (makeWaveSampler ws) ! i = NaN"
  using assms by (simp add: makeWaveSampler_def toNumber_object_def Let_def jmul_NaN_right)

lemma wave_step_NaN:
  assumes "omegas smp ! i = NaN"
  shows "dispY (wave_step smp x z t acc i) = NaN"
    and "dHdX (wave_step smp x z t acc i) = NaN"
    and "dHdZ (wave_step smp x z t acc i) = NaN"
    and "dispX (wave_step smp x z t acc i) = NaN"
    and "dispZ (wave_step smp x z t acc i) = NaN"
  using assms by (simp_all add: wave_step_def Let_def jsub_NaN_right jmul_NaN_right jadd_NaN_right)

lemma sampler_NaN:
  assumes "ws \<noteq> []"
  shows "heightAndNormal (makeWaveSampler ws) x z t =
           \<lparr> height = NaN, normal = JVector3 NaN (Fin 1) NaN, disp = JVector3 NaN NaN NaN \<rparr>"
proof -
  obtain n where n: "length ws = Suc n"
    using assms by (cases ws) auto
  have wl: "waves_length (makeWaveSampler ws) = Suc n"
    by (simp add: makeWaveSampler_def Let_def n)
  have om: "omegas (makeWaveSampler ws) ! n = NaN"
    by (rule omegas_NaN) (simp add: n)
  show ?thesis
    by (simp add: heightAndNormal_def Let_def wl wave_step_NaN [OF om]
          jnormalize3_def jlength3_def)
qed

lemma waves_nonempty: "waves \<noteq> []"
  by (simp add: waves_def)

lemma scaled_squares:
  fixes a b r :: real
  shows "a * (1 / r) * (a * (1 / r)) + 1 / r * (1 / r) + b * (1 / r) * (b * (1 / r))
           = (a * a + 1 + b * b) / (r * r)"
  by (simp add: add_divide_distrib)

text \<open>
  On finite derivatives the vector that \<^verbatim>\<open>heightAndNormal\<close> normalises has the component
  \<open>y = 1\<close>, so its length is at least \<open>1\<close> and the normal has length \<open>1\<close>: a normal of zero
  magnitude cannot come out of the sampler.
\<close>

lemma jnormalize3_finite_unit:
  "jlength3 (jnormalize3 (JVector3 (Fin a) (Fin 1) (Fin b))) = Fin 1"
proof -
  let ?q = "a * a + 1 + b * b"
  have q: "1 \<le> ?q"
    using zero_le_square [of a] zero_le_square [of b] by linarith
  have qp: "0 < ?q"
    using q by linarith
  then have l: "0 < sqrt ?q"
    by (rule real_sqrt_gt_zero)
  have nn: "\<not> ?q < 0"
    using qp by linarith
  have len: "jlength3 (JVector3 (Fin a) (Fin 1) (Fin b)) = Fin (sqrt ?q)"
    using nn by (simp add: jlength3_def)
  have n: "jnormalize3 (JVector3 (Fin a) (Fin 1) (Fin b)) =
             JVector3 (Fin (a * (1 / sqrt ?q))) (Fin (1 / sqrt ?q)) (Fin (b * (1 / sqrt ?q)))"
    using l by (simp add: jnormalize3_def len Let_def)
  have "a * (1 / sqrt ?q) * (a * (1 / sqrt ?q)) + 1 / sqrt ?q * (1 / sqrt ?q)
          + b * (1 / sqrt ?q) * (b * (1 / sqrt ?q)) = ?q / (sqrt ?q * sqrt ?q)"
    by (rule scaled_squares)
  also have "\<dots> = 1"
    using qp by simp
  finally have s: "a * (1 / sqrt ?q) * (a * (1 / sqrt ?q)) + 1 / sqrt ?q * (1 / sqrt ?q)
          + b * (1 / sqrt ?q) * (b * (1 / sqrt ?q)) = 1" .
  show ?thesis
    unfolding n by (simp add: jlength3_def s del: times_divide_eq_right times_divide_eq_left)
qed

lemma sampler_game_NaN:
  "heightAndNormal sampler x z t =
     \<lparr> height = NaN, normal = JVector3 NaN (Fin 1) NaN, disp = JVector3 NaN NaN NaN \<rparr>"
  unfolding sampler_def by (rule sampler_NaN [OF waves_nonempty])

text \<open>
  Claim C1. The specification gives the sampled height as the sum over the components of
  \<open>amp\<^sub>i * sin (k\<^sub>i * (dir\<^sub>i \<cdot> [x, z]) - \<omega>\<^sub>i * t)\<close> with \<open>k\<^sub>i = 2\<pi> / len\<^sub>i\<close> and
  \<open>\<omega>\<^sub>i = sqrt (9.81 * k\<^sub>i) * speed\<^sub>i\<close> (\<open>spec_height\<close>). The sampler of the source computes
  \<open>\<omega>\<^sub>i\<close> from the wave object instead of \<open>k\<^sub>i\<close>, so every \<open>\<omega>\<^sub>i\<close> is \<^verbatim>\<open>NaN\<close>: for the
  game's own wave field the height it returns is \<^verbatim>\<open>NaN\<close> at every \<open>(x, z, t)\<close>, and at
  \<open>(0, 0, 0)\<close>, where the specified sum is \<open>0\<close>, it differs from the specified value.
\<close>

theorem C1_sampler_height_NaN:
  "height (heightAndNormal sampler x z t) = NaN
   \<and> spec_height waves 0 0 0 = 0
   \<and> height (heightAndNormal sampler 0 0 0) \<noteq> Fin (spec_height waves 0 0 0)"
  by (simp add: sampler_game_NaN spec_height_def waves_def)

text \<open>
  Claim C2. The specification asks for a unit normal and a height bounded in absolute
  value by the sum of the amplitudes. For the game's own wave field (unit directions,
  positive amplitudes and wavelengths) the sampler of the source returns the normal
  \<open>(NaN, 1, NaN)\<close>, whose length is \<^verbatim>\<open>NaN\<close> and not \<open>1\<close>, and the height \<^verbatim>\<open>NaN\<close>, for which
  the comparison with the sum of the amplitudes is false.
\<close>

theorem C2_sampler_normal_not_unit:
  "normal (heightAndNormal sampler x z t) = JVector3 NaN (Fin 1) NaN
   \<and> jlength3 (normal (heightAndNormal sampler x z t)) \<noteq> Fin 1
   \<and> \<not> jle (jabs (height (heightAndNormal sampler x z t))) (Fin (sum_list (map amp waves)))"
  by (simp add: sampler_game_NaN jlength3_def)

text \<open>
  Claim C9. The specification asks that the orientation of the boat never contains
  \<^verbatim>\<open>NaN\<close>. In the source, \<^verbatim>\<open>updateBoat\<close> passes the sampled normal to
  \<^verbatim>\<open>setFromUnitVectors\<close> with no guard, and with the game's sampler that vector is
  \<open>(NaN, 1, NaN)\<close> on every tick, for every state, tick size and time; the height written
  to the boat's position is \<^verbatim>\<open>NaN\<close> as well.
\<close>

theorem C9_targetUp_NaN:
  "updateBoat_targetUp sampler dt t st = JVector3 NaN (Fin 1) NaN
   \<and> boat_y (tick sampler True pressed dt t st) = NaN"
  by (simp add: updateBoat_targetUp_def updateBoat_sample_def tick_def updateBoat_def
        sampler_game_NaN Let_def)

lemma lerp_twice:
  "lerp (lerp v w (1 - c powr a)) w (1 - c powr b) = lerp v w (1 - c powr (a + b))"
  by (simp add: lerp_def powr_add algebra_simps)

lemma updateInput_twice:
  "updateInput pressed b (updateInput pressed a st) = updateInput pressed (a + b) st"
  by (simp add: updateInput_def Let_def lerp_twice)

lemma updateInput_zero: "updateInput pressed 0 st = st"
  by (simp add: updateInput_def Let_def lerp_def)

lemma run_input_sum: "run_input pressed dts st = updateInput pressed (sum_list dts) st"
proof (induction dts arbitrary: st)
  case Nil
  show ?case by (simp add: run_input_def updateInput_zero)
next
  case (Cons d ds)
  have "run_input pressed (d # ds) st = run_input pressed ds (updateInput pressed d st)"
    by (simp add: run_input_def)
  also have "\<dots> = updateInput pressed (sum_list ds) (updateInput pressed d st)"
    by (rule Cons.IH)
  also have "\<dots> = updateInput pressed (d + sum_list ds) st"
    by (rule updateInput_twice)
  finally show ?case by simp
qed

lemma rne_error: "\<bar>of_int (rne y) - y\<bar> \<le> 1 / 2"
proof -
  have "of_int \<lfloor>y\<rfloor> \<le> y" and "y < of_int \<lfloor>y\<rfloor> + 1"
    by linarith+
  then show ?thesis
    by (auto simp add: rne_def Let_def)
qed

lemma rne_unique:
  assumes "\<bar>y - of_int m\<bar> < 1 / 2"
  shows "rne y = m"
proof (cases "of_int m \<le> y")
  case True
  have "\<lfloor>y\<rfloor> = m"
    using True assms by (intro floor_unique) linarith+
  then show ?thesis
    using True assms by (simp add: rne_def Let_def)
next
  case False
  have c: "real_of_int (m - 1) = real_of_int m - 1"
    by simp
  have f: "\<lfloor>y\<rfloor> = m - 1"
  proof (rule floor_unique)
    show "real_of_int (m - 1) \<le> y"
      unfolding c using False assms by linarith
    show "y < real_of_int (m - 1) + 1"
      unfolding c using False assms by linarith
  qed
  have "1 / 2 < y - of_int (m - 1)"
    unfolding c using assms False by linarith
  then show ?thesis
    using f by (simp add: rne_def Let_def)
qed

lemma round_double_error: "\<bar>round_double x - x\<bar> \<le> \<bar>x\<bar> / 2 ^ 53"
proof (cases "x = 0")
  case True
  then show ?thesis by (simp add: round_double_def)
next
  case False
  define L where "L = \<lfloor>log 2 \<bar>x\<bar>\<rfloor>"
  define s :: real where "s = 2 powr of_int (L - 52)"
  have sp: "0 < s" by (simp add: s_def)
  have r: "round_double x = of_int (rne (x / s)) * s"
    using False by (simp add: round_double_def Let_def L_def s_def)
  have "round_double x - x = (of_int (rne (x / s)) - x / s) * s"
    using sp by (simp add: r algebra_simps)
  then have "\<bar>round_double x - x\<bar> = \<bar>of_int (rne (x / s)) - x / s\<bar> * \<bar>s\<bar>"
    by (simp only: abs_mult)
  also have "\<dots> = \<bar>of_int (rne (x / s)) - x / s\<bar> * s"
    using sp by simp
  also have "\<dots> \<le> 1 / 2 * s"
    using sp rne_error [of "x / s"] by (intro mult_right_mono) simp_all
  finally have a: "\<bar>round_double x - x\<bar> \<le> s / 2" by simp
  have "of_int L \<le> log 2 \<bar>x\<bar>"
    unfolding L_def by (rule of_int_floor_le)
  then have "2 powr of_int L \<le> 2 powr log 2 \<bar>x\<bar>"
    by (intro powr_mono) simp_all
  also have "\<dots> = \<bar>x\<bar>"
    using False by simp
  finally have b: "2 powr of_int L \<le> \<bar>x\<bar>" .
  have "s = 2 powr of_int L / 2 ^ 52"
    by (simp add: s_def powr_diff)
  then have "s / 2 = 2 powr of_int L / 2 ^ 53"
    by simp
  also have "\<dots> \<le> \<bar>x\<bar> / 2 ^ 53"
    using b by (intro divide_right_mono) simp_all
  finally show ?thesis using a by linarith
qed

lemma round_double_eval:
  assumes "2 ^ 52 \<le> \<bar>x\<bar> * 2 ^ n" and "\<bar>x\<bar> * 2 ^ n < 2 ^ 53"
    and "\<bar>x * 2 ^ n - of_int m\<bar> < 1 / 2"
  shows "round_double x = of_int m / 2 ^ n"
proof -
  have nz: "x \<noteq> 0"
    using assms(1) by auto
  have p: "(2::real) powr (52 - real n) = 2 ^ 52 / 2 ^ n"
    "(2::real) powr (53 - real n) = 2 ^ 53 / 2 ^ n"
    by (simp_all add: powr_diff powr_realpow)
  have lo: "2 powr (52 - real n) \<le> \<bar>x\<bar>"
    unfolding p using assms(1) by (simp add: field_simps)
  have hi: "\<bar>x\<bar> < 2 powr (53 - real n)"
    unfolding p using assms(2) by (simp add: field_simps)
  have l1: "52 - real n \<le> log 2 \<bar>x\<bar>"
    using lo nz by (simp add: le_log_iff)
  have l2: "log 2 \<bar>x\<bar> < 53 - real n"
    using hi nz by (simp add: log_less_iff)
  have fl: "\<lfloor>log 2 \<bar>x\<bar>\<rfloor> = 52 - int n"
    using l1 l2 by (intro floor_unique) simp_all
  have s: "(2::real) powr of_int (52 - int n - 52) = 1 / 2 ^ n"
    by (simp add: powr_minus powr_realpow field_simps)
  have "round_double x = of_int (rne (x / (1 / 2 ^ n))) * (1 / 2 ^ n)"
    using nz by (simp only: round_double_def Let_def fl s if_False)
  also have "x / (1 / 2 ^ n) = x * 2 ^ n"
    by simp
  also have "rne (x * 2 ^ n) = m"
    using assms(3) by (rule rne_unique)
  finally show ?thesis by simp
qed

lemma rd_literal: "round_double (1 / 1000) = 4611686018427388 / 2 ^ 62"
  using round_double_eval [of "1 / 1000" 62 4611686018427388] by simp

lemma rd_c: "round_double ((4611686018427388 / 2 ^ 62)) = 4611686018427388 / 2 ^ 62"
  using round_double_eval [of "(4611686018427388 / 2 ^ 62)" 62 4611686018427388] by simp

lemma rd_t1: "round_double (1 - (4611686018427388 / 2 ^ 62)) = 8998192055486251 / 2 ^ 53"
  using round_double_eval [of "1 - (4611686018427388 / 2 ^ 62)" 53 8998192055486251] by simp

lemma rd_t1_id: "round_double ((8998192055486251 / 2 ^ 53)) = 8998192055486251 / 2 ^ 53"
  using round_double_eval [of "(8998192055486251 / 2 ^ 53)" 53 8998192055486251] by simp

lemma rd_a1: "round_double (1 - (8998192055486251 / 2 ^ 53)) = 4611686018427392 / 2 ^ 62"
  using round_double_eval [of "1 - (8998192055486251 / 2 ^ 53)" 62 4611686018427392] by simp

lemma rd_x1: "round_double ((4611686018427392 / 2 ^ 62) * (8998192055486251 / 2 ^ 53)) = 4607074332408965 / 2 ^ 62"
  using round_double_eval [of "(4611686018427392 / 2 ^ 62) * (8998192055486251 / 2 ^ 53)" 62 4607074332408965] by simp

lemma rd_x1_id: "round_double ((4607074332408965 / 2 ^ 62)) = 4607074332408965 / 2 ^ 62"
  using round_double_eval [of "(4607074332408965 / 2 ^ 62)" 62 4607074332408965] by simp

lemma rd_x2: "round_double ((4611686018427392 / 2 ^ 62) * (4607074332408965 / 2 ^ 62)) = 4717644116386784 / 2 ^ 72"
  using round_double_eval [of "(4611686018427392 / 2 ^ 62) * (4607074332408965 / 2 ^ 62)" 72 4717644116386784] by simp

lemma rd_x2_id: "round_double ((4717644116386784 / 2 ^ 72)) = 4717644116386784 / 2 ^ 72"
  using round_double_eval [of "(4717644116386784 / 2 ^ 72)" 72 4717644116386784] by simp

lemma rd_p2: "round_double ((4611686018427388 / 2 ^ 62) * (4611686018427388 / 2 ^ 62)) = 4722366482869645 / 2 ^ 72"
  using round_double_eval [of "(4611686018427388 / 2 ^ 62) * (4611686018427388 / 2 ^ 62)" 72 4722366482869645] by simp

lemma rd_t2: "round_double (1 - (4722366482869645 / 2 ^ 72)) = 9007190247541737 / 2 ^ 53"
  using round_double_eval [of "1 - (4722366482869645 / 2 ^ 72)" 53 9007190247541737] by simp

lemma rd_a2: "round_double (1 - (9007190247541737 / 2 ^ 53)) = 4722366483005440 / 2 ^ 72"
  using round_double_eval [of "1 - (9007190247541737 / 2 ^ 53)" 72 4722366483005440] by simp

lemma rd_y: "round_double ((4722366483005440 / 2 ^ 72) * (8998192055486251 / 2 ^ 53)) = 4717644116522435 / 2 ^ 72"
  using round_double_eval [of "(4722366483005440 / 2 ^ 72) * (8998192055486251 / 2 ^ 53)" 72 4717644116522435] by simp

lemma rd_y_id: "round_double ((4717644116522435 / 2 ^ 72)) = 4717644116522435 / 2 ^ 72"
  using round_double_eval [of "(4717644116522435 / 2 ^ 72)" 72 4717644116522435] by simp

lemma rd_zero: "round_double 0 = 0"
  by (simp add: round_double_def)

lemma pow_one: "Math_pow (round_double 0.001) 1 = 4611686018427388 / 2 ^ 62"
proof -
  have "round_double 0.001 = 4611686018427388 / 2 ^ 62"
    using rd_literal by simp
  moreover have "(4611686018427388 / 2 ^ 62) powr 1 = (4611686018427388 / 2 ^ 62 :: real)"
    by simp
  ultimately show ?thesis
    unfolding Math_pow_def by (simp only: rd_c)
qed

lemma pow_two: "Math_pow (round_double 0.001) 2 = 4722366482869645 / 2 ^ 72"
proof -
  have "round_double 0.001 = 4611686018427388 / 2 ^ 62"
    using rd_literal by simp
  moreover have "(4611686018427388 / 2 ^ 62) powr 2
                   = (4611686018427388 / 2 ^ 62) * (4611686018427388 / 2 ^ 62 :: real)"
    by (simp add: power2_eq_square)
  ultimately show ?thesis
    unfolding Math_pow_def by (simp only: rd_p2)
qed

lemma factor_one: "round_double (1 - Math_pow (round_double 0.001) 1) = 8998192055486251 / 2 ^ 53"
  by (simp only: pow_one rd_t1)

lemma factor_two: "round_double (1 - Math_pow (round_double 0.001) 2) = 9007190247541737 / 2 ^ 53"
  by (simp only: pow_two rd_t2)

lemma lerp_press: "lerp_double 0 1 (8998192055486251 / 2 ^ 53) = 8998192055486251 / 2 ^ 53"
  by (simp only: lerp_double_def rd_a1 mult_zero_right rd_zero mult_1_right rd_t1_id add_0_left)

lemma lerp_release_first:
  "lerp_double (8998192055486251 / 2 ^ 53) 0 (8998192055486251 / 2 ^ 53) = 4607074332408965 / 2 ^ 62"
  by (simp only: lerp_double_def rd_a1 rd_x1 mult_zero_right rd_zero add_0_right rd_x1_id)

lemma lerp_release_second:
  "lerp_double (4607074332408965 / 2 ^ 62) 0 (8998192055486251 / 2 ^ 53) = 4717644116386784 / 2 ^ 72"
  by (simp only: lerp_double_def rd_a1 rd_x2 mult_zero_right rd_zero add_0_right rd_x2_id)

lemma lerp_release_long:
  "lerp_double (8998192055486251 / 2 ^ 53) 0 (9007190247541737 / 2 ^ 53) = 4717644116522435 / 2 ^ 72"
  by (simp only: lerp_double_def rd_a2 rd_y mult_zero_right rd_zero add_0_right rd_y_id)

lemma throttle_double:
  "targetThrottle (updateInput_double pressed dt st) =
     lerp_double (targetThrottle st)
       ((if pressed ''w'' then 1 else 0) - (if pressed ''s'' then 1 else 0))
       (round_double (1 - Math_pow (round_double 0.001) dt))"
  by (simp add: updateInput_double_def Let_def)

lemma steer_double:
  "targetSteer (updateInput_double pressed dt st) =
     lerp_double (targetSteer st)
       ((if pressed ''d'' then 1 else 0) - (if pressed ''a'' then 1 else 0))
       (round_double (1 - Math_pow (round_double 0.001) dt))"
  by (simp add: updateInput_double_def Let_def)

text \<open>
  Claim C3, as stated, fails in the arithmetic of the source. From the initial state, hold
  W for one tick of one second: the smoothed throttle is the double \<open>0.999\<close>. Release the
  key (constant raw input \<open>0\<close>) for a total of two seconds: two ticks of one second leave
  the double \<open>9.990000000000018e-07\<close>, one tick of two seconds leaves
  \<open>9.99000000028727e-07\<close>.
\<close>

theorem C3_double_counterexample:
  "targetThrottle (run_input_double (\<lambda>k. k = ''w'') [1] boat_init) = 8998192055486251 / 2 ^ 53
   \<and> targetThrottle (run_input_double (\<lambda>k. False) [1, 1]
                        (run_input_double (\<lambda>k. k = ''w'') [1] boat_init))
       = 4717644116386784 / 2 ^ 72
   \<and> targetThrottle (run_input_double (\<lambda>k. False) [2]
                        (run_input_double (\<lambda>k. k = ''w'') [1] boat_init))
       = 4717644116522435 / 2 ^ 72
   \<and> targetThrottle (run_input_double (\<lambda>k. False) [1, 1]
                        (run_input_double (\<lambda>k. k = ''w'') [1] boat_init))
       \<noteq> targetThrottle (run_input_double (\<lambda>k. False) [2]
                        (run_input_double (\<lambda>k. k = ''w'') [1] boat_init))"
proof -
  let ?s = "run_input_double (\<lambda>k. k = ''w'') [1] boat_init"
  have s: "targetThrottle ?s = 8998192055486251 / 2 ^ 53"
  proof -
    have "targetThrottle ?s = lerp_double 0 1 (round_double (1 - Math_pow (round_double 0.001) 1))"
      by (simp add: run_input_double_def throttle_double boat_init_def)
    then show ?thesis by (simp only: factor_one lerp_press)
  qed
  have "targetThrottle (run_input_double (\<lambda>k. False) [1, 1] ?s) =
          lerp_double (lerp_double (targetThrottle ?s) 0
                         (round_double (1 - Math_pow (round_double 0.001) 1)))
            0 (round_double (1 - Math_pow (round_double 0.001) 1))"
    by (simp add: run_input_double_def throttle_double)
  then have two: "targetThrottle (run_input_double (\<lambda>k. False) [1, 1] ?s) = 4717644116386784 / 2 ^ 72"
    by (simp only: s factor_one lerp_release_first lerp_release_second)
  have "targetThrottle (run_input_double (\<lambda>k. False) [2] ?s) =
          lerp_double (targetThrottle ?s) 0 (round_double (1 - Math_pow (round_double 0.001) 2))"
    by (simp add: run_input_double_def throttle_double)
  then have one: "targetThrottle (run_input_double (\<lambda>k. False) [2] ?s) = 4717644116522435 / 2 ^ 72"
    by (simp only: s factor_two lerp_release_long)
  have ne: "(4717644116386784 / 2 ^ 72 :: real) \<noteq> 4717644116522435 / 2 ^ 72"
    by simp
  show ?thesis
    using s two one ne by (simp only: simp_thms)
qed

lemma round_double_near:
  assumes "\<bar>x - y\<bar> \<le> a" and "\<bar>x\<bar> \<le> b"
  shows "\<bar>round_double x - y\<bar> \<le> a + b / 2 ^ 53"
proof -
  have "\<bar>round_double x - x\<bar> \<le> \<bar>x\<bar> / 2 ^ 53"
    by (rule round_double_error)
  also have "\<dots> \<le> b / 2 ^ 53"
    using assms(2) by (intro divide_right_mono) simp_all
  finally show ?thesis using assms(1) by linarith
qed

lemma abs_mult_le:
  fixes x y a b :: real
  assumes "\<bar>x\<bar> \<le> a" and "\<bar>y\<bar> \<le> b"
  shows "\<bar>x * y\<bar> \<le> a * b"
proof -
  have "0 \<le> a" using assms(1) by linarith
  then have "\<bar>x\<bar> * \<bar>y\<bar> \<le> a * b"
    using assms by (intro mult_mono) simp_all
  then show ?thesis by (simp only: abs_mult)
qed

lemma powr_near_one:
  fixes b t :: real
  assumes "0 < b" and "0 \<le> t" and "t \<le> 1"
  shows "\<bar>b powr t - 1\<bar> \<le> \<bar>b - 1\<bar>"
proof (cases "1 \<le> b")
  case True
  have "b powr 0 \<le> b powr t" and "b powr t \<le> b powr 1"
    using True assms by (intro powr_mono; simp)+
  then show ?thesis using True assms(1) by simp
next
  case False
  then have le: "b \<le> 1" by simp
  have "b powr 1 \<le> b powr t" and "b powr t \<le> b powr 0"
    using le assms by (intro powr_mono'; simp)+
  then show ?thesis using le assms(1) by simp
qed

lemma smoothing_base:
  fixes dt :: real
  assumes "0 \<le> dt" and "dt \<le> 1"
  shows "0 < (1 / 1000) powr dt" and "(1 / 1000) powr dt \<le> (1::real)"
    and "\<bar>round_double (1 / 1000) powr dt - (1 / 1000) powr dt\<bar> \<le> 1 / 2 ^ 53"
proof -
  let ?p = "(1 / 1000 :: real) powr dt"
  let ?c = "round_double (1 / 1000)"
  show p0: "0 < ?p" by simp
  have "?p \<le> (1 / 1000) powr 0"
    using assms(1) by (intro powr_mono') simp_all
  then show p1: "?p \<le> 1"
    by simp
  define b where "b = 1000 * ?c"
  have b1: "\<bar>b - 1\<bar> \<le> 1 / 2 ^ 53"
    unfolding b_def rd_literal by simp
  have bp: "0 < b"
    unfolding b_def rd_literal by simp
  have eq: "?c = (1 / 1000) * b"
    by (simp add: b_def)
  have "?c powr dt = ((1 / 1000) * b) powr dt"
    by (simp only: eq [symmetric])
  also have "\<dots> = ?p * b powr dt"
    by (rule powr_mult)
  finally have "?c powr dt = ?p * b powr dt" .
  then have "?c powr dt - ?p = ?p * (b powr dt - 1)"
    by (simp add: algebra_simps)
  then have "\<bar>?c powr dt - ?p\<bar> = ?p * \<bar>b powr dt - 1\<bar>"
    using p0 by (simp add: abs_mult)
  also have "\<dots> \<le> 1 * \<bar>b - 1\<bar>"
    using p1 p0 powr_near_one [OF bp assms] by (intro mult_mono) simp_all
  finally have "\<bar>?c powr dt - ?p\<bar> \<le> \<bar>b - 1\<bar>"
    by simp
  then show "\<bar>?c powr dt - ?p\<bar> \<le> 1 / 2 ^ 53"
    using b1 by (rule order_trans)
qed

lemma round_double_near_scaled:
  assumes "\<bar>x - y\<bar> \<le> a" and "\<bar>x\<bar> \<le> b"
  shows "\<bar>round_double x - y\<bar> \<le> a + b * (1 / 2 ^ 53)"
  using round_double_near [OF assms] by simp

text \<open>
  One smoothing step in doubles against the same step in exact arithmetic, for a tick of
  at most one second, a signal of magnitude at most \<open>2\<close> and a raw input of magnitude at
  most \<open>1\<close>.
\<close>

lemma lerp_double_near:
  fixes v w dt :: real
  assumes "0 \<le> dt" and "dt \<le> 1" and "\<bar>v\<bar> \<le> 2" and "\<bar>w\<bar> \<le> 1"
  shows "\<bar>lerp_double v w (round_double (1 - Math_pow (round_double (1 / 1000)) dt))
           - lerp v w (1 - (1 / 1000) powr dt)\<bar> \<le> 32 / 2 ^ 53"
proof -
  define u :: real where "u = 1 / 2 ^ 53"
  define p :: real where "p = (1 / 1000) powr dt"
  define cd where "cd = round_double (1 / 1000) powr dt"
  define P where "P = round_double cd"
  define t where "t = round_double (1 - P)"
  define a where "a = round_double (1 - t)"
  define m1 where "m1 = round_double (a * v)"
  define m2 where "m2 = round_double (t * w)"
  define r where "r = round_double (m1 + m2)"
  have u0: "0 < u" and u1: "u \<le> 1 / 1000"
    by (simp_all add: u_def)
  have p0: "0 < p" and p1: "p \<le> 1" and cdp: "\<bar>cd - p\<bar> \<le> u"
    using smoothing_base [OF assms(1) assms(2)] by (simp_all add: p_def cd_def u_def)
  have "\<bar>cd\<bar> \<le> 2"
    using cdp p0 p1 u1 by linarith
  then have Pp: "\<bar>P - p\<bar> \<le> 3 * u"
    using round_double_near_scaled [OF cdp, of 2] by (simp add: P_def u_def)
  have "\<bar>(1 - P) - (1 - p)\<bar> \<le> 3 * u" and "\<bar>1 - P\<bar> \<le> 3"
    using Pp p0 p1 u1 by linarith+
  then have tq: "\<bar>t - (1 - p)\<bar> \<le> 6 * u"
    using round_double_near_scaled [of "1 - P" "1 - p" "3 * u" 3] by (simp add: t_def u_def)
  have "\<bar>(1 - t) - p\<bar> \<le> 6 * u" and "\<bar>1 - t\<bar> \<le> 2"
    using tq p0 p1 u1 by linarith+
  then have ap: "\<bar>a - p\<bar> \<le> 8 * u"
    using round_double_near_scaled [of "1 - t" p "6 * u" 2] by (simp add: a_def u_def)
  have "\<bar>(a - p) * v\<bar> \<le> (8 * u) * 2"
    using ap assms(3) by (rule abs_mult_le)
  then have d1: "\<bar>a * v - p * v\<bar> \<le> 16 * u"
    by (simp add: algebra_simps)
  have "\<bar>a\<bar> \<le> 2"
    using ap p0 p1 u1 by linarith
  then have "\<bar>a * v\<bar> \<le> 2 * 2"
    using assms(3) by (rule abs_mult_le)
  then have b1: "\<bar>a * v\<bar> \<le> 4"
    by simp
  have m1p: "\<bar>m1 - p * v\<bar> \<le> 20 * u"
    using round_double_near_scaled [OF d1 b1] by (simp add: m1_def u_def)
  have "\<bar>(t - (1 - p)) * w\<bar> \<le> (6 * u) * 1"
    using tq assms(4) by (rule abs_mult_le)
  then have d2: "\<bar>t * w - (1 - p) * w\<bar> \<le> 6 * u"
    by (simp add: algebra_simps)
  have "\<bar>t\<bar> \<le> 2"
    using tq p0 p1 u1 by linarith
  then have "\<bar>t * w\<bar> \<le> 2 * 1"
    using assms(4) by (rule abs_mult_le)
  then have b2: "\<bar>t * w\<bar> \<le> 2"
    by simp
  have m2p: "\<bar>m2 - (1 - p) * w\<bar> \<le> 8 * u"
    using round_double_near_scaled [OF d2 b2] by (simp add: m2_def u_def)
  have "\<bar>p * v\<bar> \<le> 1 * 2"
    using assms(3) p0 p1 by (intro abs_mult_le) simp_all
  moreover have "\<bar>(1 - p) * w\<bar> \<le> 1 * 1"
    using assms(4) p0 p1 by (intro abs_mult_le) simp_all
  ultimately have e: "\<bar>p * v + (1 - p) * w\<bar> \<le> 3"
    by linarith
  have d3: "\<bar>(m1 + m2) - (p * v + (1 - p) * w)\<bar> \<le> 28 * u"
    using m1p m2p by linarith
  have b3: "\<bar>m1 + m2\<bar> \<le> 4"
    using d3 e u1 by linarith
  have rp: "\<bar>r - (p * v + (1 - p) * w)\<bar> \<le> 32 * u"
    using round_double_near_scaled [OF d3 b3] by (simp add: r_def u_def)
  have "lerp_double v w (round_double (1 - Math_pow (round_double (1 / 1000)) dt)) = r"
    by (simp add: lerp_double_def Math_pow_def r_def m1_def m2_def a_def t_def P_def cd_def)
  moreover have "lerp v w (1 - (1 / 1000) powr dt) = p * v + (1 - p) * w"
    by (simp add: lerp_def p_def)
  ultimately show ?thesis
    using rp by (simp add: u_def)
qed

lemma lerp_exact_bound:
  fixes v w p :: real
  assumes "0 < p" and "p \<le> 1" and "\<bar>v\<bar> \<le> 1" and "\<bar>w\<bar> \<le> 1"
  shows "\<bar>lerp v w (1 - p)\<bar> \<le> 1"
proof -
  have "\<bar>p * v\<bar> \<le> p * 1"
    using assms by (intro abs_mult_le) simp_all
  then have a: "\<bar>p * v\<bar> \<le> p"
    by simp
  have "\<bar>(1 - p) * w\<bar> \<le> (1 - p) * 1"
    using assms by (intro abs_mult_le) simp_all
  then have b: "\<bar>(1 - p) * w\<bar> \<le> 1 - p"
    by simp
  have "\<bar>p * v + (1 - p) * w\<bar> \<le> 1"
    using a b by linarith
  then show ?thesis
    by (simp add: lerp_def)
qed

lemma lerp_exact_diff:
  fixes v v' w p :: real
  assumes "0 < p" and "p \<le> 1"
  shows "\<bar>lerp v w (1 - p) - lerp v' w (1 - p)\<bar> \<le> \<bar>v - v'\<bar>"
proof -
  have "lerp v w (1 - p) - lerp v' w (1 - p) = p * (v - v')"
    by (simp add: lerp_def algebra_simps)
  then have "\<bar>lerp v w (1 - p) - lerp v' w (1 - p)\<bar> = p * \<bar>v - v'\<bar>"
    using assms(1) by (simp add: abs_mult)
  also have "\<dots> \<le> 1 * \<bar>v - v'\<bar>"
    using assms(2) by (intro mult_right_mono) simp_all
  finally show ?thesis by simp
qed

text \<open>
  A run of smoothing steps in doubles against the same run in exact arithmetic: every
  tick adds at most \<open>32 / 2 ^ 53\<close> to the distance.
\<close>

lemma fold_near:
  fixes v w :: real
  assumes "\<forall>d\<in>set dts. 0 \<le> d \<and> d \<le> 1" and "\<bar>v\<bar> \<le> 1" and "\<bar>w\<bar> \<le> 1"
    and "32 * real (length dts) \<le> 2 ^ 53"
  shows "\<bar>foldl (\<lambda>x d. lerp_double x w (round_double (1 - Math_pow (round_double (1 / 1000)) d))) v dts
           - foldl (\<lambda>x d. lerp x w (1 - (1 / 1000) powr d)) v dts\<bar>
         \<le> 32 * real (length dts) / 2 ^ 53
       \<and> \<bar>foldl (\<lambda>x d. lerp x w (1 - (1 / 1000) powr d)) v dts\<bar> \<le> 1"
  using assms(1) assms(4)
proof (induction dts rule: rev_induct)
  case Nil
  show ?case using assms(2) by simp
next
  case (snoc d ds)
  let ?D = "\<lambda>x d. lerp_double x w (round_double (1 - Math_pow (round_double (1 / 1000)) d))"
  let ?E = "\<lambda>x d. lerp x w (1 - (1 / 1000) powr d)"
  define vd where "vd = foldl ?D v ds"
  define vr where "vr = foldl ?E v ds"
  define n where "n = real (length ds)"
  have d: "0 \<le> d" "d \<le> 1"
    using snoc.prems(1) by simp_all
  have len: "32 * n + 32 \<le> 2 ^ 53"
    using snoc.prems(2) by (simp add: n_def)
  have n0: "0 \<le> n" by (simp add: n_def)
  have "\<forall>d\<in>set ds. 0 \<le> d \<and> d \<le> 1" and "32 * real (length ds) \<le> 2 ^ 53"
    using snoc.prems len by (simp_all add: n_def)
  then have ih: "\<bar>vd - vr\<bar> \<le> 32 * n / 2 ^ 53" "\<bar>vr\<bar> \<le> 1"
    using snoc.IH by (simp_all add: vd_def vr_def n_def)
  have small: "32 * n / 2 ^ 53 \<le> (1::real)"
    using len n0 by simp
  have vd2: "\<bar>vd\<bar> \<le> 2"
    using ih small by linarith
  have p: "0 < (1 / 1000 :: real) powr d" "(1 / 1000 :: real) powr d \<le> 1"
    using smoothing_base(1,2) [OF d] by simp_all
  have a: "\<bar>?D vd d - ?E vd d\<bar> \<le> 32 / 2 ^ 53"
    using lerp_double_near [OF d vd2 assms(3)] .
  have b: "\<bar>?E vd d - ?E vr d\<bar> \<le> \<bar>vd - vr\<bar>"
    using p by (rule lerp_exact_diff)
  have c: "\<bar>?E vr d\<bar> \<le> 1"
    using p ih(2) assms(3) by (rule lerp_exact_bound)
  have "\<bar>?D vd d - ?E vr d\<bar> \<le> 32 / 2 ^ 53 + 32 * n / 2 ^ 53"
    using a b ih(1) by linarith
  also have "\<dots> = 32 * (n + 1) / 2 ^ 53"
    by (simp add: field_simps)
  finally have e: "\<bar>?D vd d - ?E vr d\<bar> \<le> 32 * (n + 1) / 2 ^ 53" .
  have l: "real (length (ds @ [d])) = n + 1"
    by (simp add: n_def)
  show ?case
    unfolding foldl_append foldl_Cons foldl_Nil l
    using e c by (simp only: vd_def vr_def)
qed

lemma want_bound:
  "\<bar>(if a then 1 else 0) - (if b then 1 else (0::real))\<bar> \<le> 1"
  by simp

lemma throttle_exact:
  "targetThrottle (updateInput pressed dt st) =
     lerp (targetThrottle st)
       ((if pressed ''w'' then 1 else 0) - (if pressed ''s'' then 1 else 0))
       (1 - (1 / 1000) powr dt)"
  by (simp add: updateInput_def Let_def)

lemma steer_exact:
  "targetSteer (updateInput pressed dt st) =
     lerp (targetSteer st)
       ((if pressed ''d'' then 1 else 0) - (if pressed ''a'' then 1 else 0))
       (1 - (1 / 1000) powr dt)"
  by (simp add: updateInput_def Let_def)

lemma throttle_run_double:
  "targetThrottle (run_input_double pressed dts st) =
     foldl (\<lambda>x d. lerp_double x
                     ((if pressed ''w'' then 1 else 0) - (if pressed ''s'' then 1 else 0))
                     (round_double (1 - Math_pow (round_double (1 / 1000)) d)))
       (targetThrottle st) dts"
proof (induction dts arbitrary: st)
  case Nil
  show ?case by (simp add: run_input_double_def)
next
  case (Cons d ds)
  have "run_input_double pressed (d # ds) st = run_input_double pressed ds (updateInput_double pressed d st)"
    by (simp add: run_input_double_def)
  then show ?case
    using Cons.IH [of "updateInput_double pressed d st"] by (simp add: throttle_double)
qed

lemma steer_run_double:
  "targetSteer (run_input_double pressed dts st) =
     foldl (\<lambda>x d. lerp_double x
                     ((if pressed ''d'' then 1 else 0) - (if pressed ''a'' then 1 else 0))
                     (round_double (1 - Math_pow (round_double (1 / 1000)) d)))
       (targetSteer st) dts"
proof (induction dts arbitrary: st)
  case Nil
  show ?case by (simp add: run_input_double_def)
next
  case (Cons d ds)
  have "run_input_double pressed (d # ds) st = run_input_double pressed ds (updateInput_double pressed d st)"
    by (simp add: run_input_double_def)
  then show ?case
    using Cons.IH [of "updateInput_double pressed d st"] by (simp add: steer_double)
qed

lemma throttle_run_exact:
  "targetThrottle (run_input pressed dts st) =
     foldl (\<lambda>x d. lerp x
                     ((if pressed ''w'' then 1 else 0) - (if pressed ''s'' then 1 else 0))
                     (1 - (1 / 1000) powr d))
       (targetThrottle st) dts"
proof (induction dts arbitrary: st)
  case Nil
  show ?case by (simp add: run_input_def)
next
  case (Cons d ds)
  have "run_input pressed (d # ds) st = run_input pressed ds (updateInput pressed d st)"
    by (simp add: run_input_def)
  then show ?case
    using Cons.IH [of "updateInput pressed d st"] by (simp add: throttle_exact)
qed

lemma steer_run_exact:
  "targetSteer (run_input pressed dts st) =
     foldl (\<lambda>x d. lerp x
                     ((if pressed ''d'' then 1 else 0) - (if pressed ''a'' then 1 else 0))
                     (1 - (1 / 1000) powr d))
       (targetSteer st) dts"
proof (induction dts arbitrary: st)
  case Nil
  show ?case by (simp add: run_input_def)
next
  case (Cons d ds)
  have "run_input pressed (d # ds) st = run_input pressed ds (updateInput pressed d st)"
    by (simp add: run_input_def)
  then show ?case
    using Cons.IH [of "updateInput pressed d st"] by (simp add: steer_exact)
qed

lemma run_double_near:
  assumes "\<forall>d\<in>set dts. 0 \<le> d \<and> d \<le> 1"
    and "\<bar>targetThrottle st\<bar> \<le> 1" and "\<bar>targetSteer st\<bar> \<le> 1"
    and "32 * real (length dts) \<le> 2 ^ 53"
  shows "\<bar>targetThrottle (run_input_double pressed dts st) - targetThrottle (run_input pressed dts st)\<bar>
           \<le> 32 * real (length dts) / 2 ^ 53"
    and "\<bar>targetSteer (run_input_double pressed dts st) - targetSteer (run_input pressed dts st)\<bar>
           \<le> 32 * real (length dts) / 2 ^ 53"
  unfolding throttle_run_double throttle_run_exact steer_run_double steer_run_exact
  using fold_near [OF assms(1) assms(2) want_bound assms(4)]
    fold_near [OF assms(1) assms(3) want_bound assms(4)]
  by blast+

text \<open>
  Claim C3, amended. In exact arithmetic, with the keys held fixed, the smoothed throttle
  and steer reached by a run of \<^verbatim>\<open>updateInput\<close> depend only on the total duration of the
  ticks: two lists of tick sizes with the same sum lead to the same state, and two ticks
  of \<open>dt\<close> give the state of one tick of \<open>2 * dt\<close>. In the doubles of the source the same
  holds up to rounding only: for ticks of at most one second and signals that start in
  \<open>[-1, 1]\<close>, a run of \<open>n\<close> ticks stays within \<open>32 * n / 2 ^ 53\<close> of its exact value, so two
  runs of \<open>n1\<close> and \<open>n2\<close> ticks with the same total differ by at most
  \<open>32 * (n1 + n2) / 2 ^ 53\<close>, and two ticks of \<open>dt \<le> 1 / 2\<close> differ from one tick of
  \<open>2 * dt\<close> by at most \<open>96 / 2 ^ 53\<close>.
\<close>

theorem C3_smoothing_amended:
  assumes "sum_list dts1 = sum_list dts2"
  shows "run_input pressed dts1 st = run_input pressed dts2 st
    \<and> updateInput pressed dt (updateInput pressed dt st) = updateInput pressed (2 * dt) st
    \<and> ((\<forall>d\<in>set dts1. 0 \<le> d \<and> d \<le> 1) \<and> 32 * real (length dts1) \<le> 2 ^ 53
        \<and> \<bar>targetThrottle st\<bar> \<le> 1 \<and> \<bar>targetSteer st\<bar> \<le> 1 \<longrightarrow>
          \<bar>targetThrottle (run_input_double pressed dts1 st)
             - targetThrottle (run_input pressed dts1 st)\<bar> \<le> 32 * real (length dts1) / 2 ^ 53
        \<and> \<bar>targetSteer (run_input_double pressed dts1 st)
             - targetSteer (run_input pressed dts1 st)\<bar> \<le> 32 * real (length dts1) / 2 ^ 53)
    \<and> ((\<forall>d\<in>set dts1. 0 \<le> d \<and> d \<le> 1) \<and> 32 * real (length dts1) \<le> 2 ^ 53
        \<and> (\<forall>d\<in>set dts2. 0 \<le> d \<and> d \<le> 1) \<and> 32 * real (length dts2) \<le> 2 ^ 53
        \<and> \<bar>targetThrottle st\<bar> \<le> 1 \<and> \<bar>targetSteer st\<bar> \<le> 1 \<longrightarrow>
          \<bar>targetThrottle (run_input_double pressed dts1 st)
             - targetThrottle (run_input_double pressed dts2 st)\<bar>
            \<le> 32 * real (length dts1 + length dts2) / 2 ^ 53
        \<and> \<bar>targetSteer (run_input_double pressed dts1 st)
             - targetSteer (run_input_double pressed dts2 st)\<bar>
            \<le> 32 * real (length dts1 + length dts2) / 2 ^ 53)
    \<and> (0 \<le> dt \<and> dt \<le> 1 / 2 \<and> \<bar>targetThrottle st\<bar> \<le> 1 \<and> \<bar>targetSteer st\<bar> \<le> 1 \<longrightarrow>
          \<bar>targetThrottle (updateInput_double pressed dt (updateInput_double pressed dt st))
             - targetThrottle (updateInput_double pressed (2 * dt) st)\<bar> \<le> 96 / 2 ^ 53
        \<and> \<bar>targetSteer (updateInput_double pressed dt (updateInput_double pressed dt st))
             - targetSteer (updateInput_double pressed (2 * dt) st)\<bar> \<le> 96 / 2 ^ 53)"
proof (intro conjI impI)
  show e: "run_input pressed dts1 st = run_input pressed dts2 st"
    using assms by (simp add: run_input_sum)
  show "updateInput pressed dt (updateInput pressed dt st) = updateInput pressed (2 * dt) st"
    by (simp add: updateInput_twice)
  {
    assume a: "(\<forall>d\<in>set dts1. 0 \<le> d \<and> d \<le> 1) \<and> 32 * real (length dts1) \<le> 2 ^ 53
        \<and> \<bar>targetThrottle st\<bar> \<le> 1 \<and> \<bar>targetSteer st\<bar> \<le> 1"
    show "\<bar>targetThrottle (run_input_double pressed dts1 st)
             - targetThrottle (run_input pressed dts1 st)\<bar> \<le> 32 * real (length dts1) / 2 ^ 53"
      using a by (intro run_double_near(1)) simp_all
    show "\<bar>targetSteer (run_input_double pressed dts1 st)
             - targetSteer (run_input pressed dts1 st)\<bar> \<le> 32 * real (length dts1) / 2 ^ 53"
      using a by (intro run_double_near(2)) simp_all
  }
  {
    assume a: "(\<forall>d\<in>set dts1. 0 \<le> d \<and> d \<le> 1) \<and> 32 * real (length dts1) \<le> 2 ^ 53
        \<and> (\<forall>d\<in>set dts2. 0 \<le> d \<and> d \<le> 1) \<and> 32 * real (length dts2) \<le> 2 ^ 53
        \<and> \<bar>targetThrottle st\<bar> \<le> 1 \<and> \<bar>targetSteer st\<bar> \<le> 1"
    have t1: "\<bar>targetThrottle (run_input_double pressed dts1 st)
             - targetThrottle (run_input pressed dts1 st)\<bar> \<le> 32 * real (length dts1) / 2 ^ 53"
      using a by (intro run_double_near(1)) simp_all
    have t2: "\<bar>targetThrottle (run_input_double pressed dts2 st)
             - targetThrottle (run_input pressed dts2 st)\<bar> \<le> 32 * real (length dts2) / 2 ^ 53"
      using a by (intro run_double_near(1)) simp_all
    have s1: "\<bar>targetSteer (run_input_double pressed dts1 st)
             - targetSteer (run_input pressed dts1 st)\<bar> \<le> 32 * real (length dts1) / 2 ^ 53"
      using a by (intro run_double_near(2)) simp_all
    have s2: "\<bar>targetSteer (run_input_double pressed dts2 st)
             - targetSteer (run_input pressed dts2 st)\<bar> \<le> 32 * real (length dts2) / 2 ^ 53"
      using a by (intro run_double_near(2)) simp_all
    have sum: "32 * real (length dts1 + length dts2) / 2 ^ 53
                 = 32 * real (length dts1) / 2 ^ 53 + 32 * real (length dts2) / 2 ^ 53"
      by (simp add: field_simps)
    show "\<bar>targetThrottle (run_input_double pressed dts1 st)
             - targetThrottle (run_input_double pressed dts2 st)\<bar>
            \<le> 32 * real (length dts1 + length dts2) / 2 ^ 53"
      unfolding sum using t1 t2 arg_cong [OF e, of targetThrottle] by linarith
    show "\<bar>targetSteer (run_input_double pressed dts1 st)
             - targetSteer (run_input_double pressed dts2 st)\<bar>
            \<le> 32 * real (length dts1 + length dts2) / 2 ^ 53"
      unfolding sum using s1 s2 arg_cong [OF e, of targetSteer] by linarith
  }
  {
    assume a: "0 \<le> dt \<and> dt \<le> 1 / 2 \<and> \<bar>targetThrottle st\<bar> \<le> 1 \<and> \<bar>targetSteer st\<bar> \<le> 1"
    have two: "updateInput_double pressed dt (updateInput_double pressed dt st)
                 = run_input_double pressed [dt, dt] st"
      and one: "updateInput_double pressed (2 * dt) st = run_input_double pressed [2 * dt] st"
      by (simp_all add: run_input_double_def)
    have x: "run_input pressed [dt, dt] st = run_input pressed [2 * dt] st"
      by (simp add: run_input_sum)
    have r2: "\<forall>d\<in>set [dt, dt]. 0 \<le> d \<and> d \<le> 1" and r1: "\<forall>d\<in>set [2 * dt]. 0 \<le> d \<and> d \<le> 1"
      using a by simp_all
    have l2: "32 * real (length [dt, dt]) \<le> 2 ^ 53" and l1: "32 * real (length [2 * dt]) \<le> 2 ^ 53"
      by simp_all
    have t2: "\<bar>targetThrottle (run_input_double pressed [dt, dt] st)
             - targetThrottle (run_input pressed [dt, dt] st)\<bar> \<le> 64 / 2 ^ 53"
      using run_double_near(1) [OF r2 _ _ l2, of st pressed] a by simp
    have t1: "\<bar>targetThrottle (run_input_double pressed [2 * dt] st)
             - targetThrottle (run_input pressed [2 * dt] st)\<bar> \<le> 32 / 2 ^ 53"
      using run_double_near(1) [OF r1 _ _ l1, of st pressed] a by simp
    have s2: "\<bar>targetSteer (run_input_double pressed [dt, dt] st)
             - targetSteer (run_input pressed [dt, dt] st)\<bar> \<le> 64 / 2 ^ 53"
      using run_double_near(2) [OF r2 _ _ l2, of st pressed] a by simp
    have s1: "\<bar>targetSteer (run_input_double pressed [2 * dt] st)
             - targetSteer (run_input pressed [2 * dt] st)\<bar> \<le> 32 / 2 ^ 53"
      using run_double_near(2) [OF r1 _ _ l1, of st pressed] a by simp
    show "\<bar>targetThrottle (updateInput_double pressed dt (updateInput_double pressed dt st))
             - targetThrottle (updateInput_double pressed (2 * dt) st)\<bar> \<le> 96 / 2 ^ 53"
      unfolding two one using t2 t1 arg_cong [OF x, of targetThrottle] by linarith
    show "\<bar>targetSteer (updateInput_double pressed dt (updateInput_double pressed dt st))
             - targetSteer (updateInput_double pressed (2 * dt) st)\<bar> \<le> 96 / 2 ^ 53"
      unfolding two one using s2 s1 arg_cong [OF x, of targetSteer] by linarith
  }
qed

theorem C3_smoothing_amended_witness:
  "sum_list [1 / 4, 1 / 4] = sum_list [1 / 2 :: real]
   \<and> run_input (\<lambda>k. k = ''w'') [1 / 4, 1 / 4] boat_init = run_input (\<lambda>k. k = ''w'') [1 / 2] boat_init
   \<and> (0::real) \<le> 1 / 4 \<and> (1 / 4 :: real) \<le> 1 \<and> (0::real) \<le> 1 / 2 \<and> (1 / 2 :: real) \<le> 1
   \<and> \<bar>targetThrottle boat_init\<bar> \<le> 1 \<and> \<bar>targetSteer boat_init\<bar> \<le> 1
   \<and> \<bar>targetThrottle (run_input_double (\<lambda>k. k = ''w'') [1 / 4, 1 / 4] boat_init)
        - targetThrottle (run_input (\<lambda>k. k = ''w'') [1 / 4, 1 / 4] boat_init)\<bar> \<le> 64 / 2 ^ 53
   \<and> \<bar>targetThrottle (run_input_double (\<lambda>k. k = ''w'') [1 / 4, 1 / 4] boat_init)
        - targetThrottle (run_input_double (\<lambda>k. k = ''w'') [1 / 2] boat_init)\<bar> \<le> 96 / 2 ^ 53
   \<and> \<bar>targetThrottle (updateInput_double (\<lambda>k. k = ''w'') (1 / 4)
                          (updateInput_double (\<lambda>k. k = ''w'') (1 / 4) boat_init))
        - targetThrottle (updateInput_double (\<lambda>k. k = ''w'') (2 * (1 / 4)) boat_init)\<bar> \<le> 96 / 2 ^ 53"
proof -
  have h: "sum_list [1 / 4, 1 / 4] = sum_list [1 / 2 :: real]" by simp
  note t = C3_smoothing_amended [OF h, of "\<lambda>k. k = ''w''" boat_init "1 / 4"]
  have r2: "\<forall>d\<in>set [1 / 4, 1 / 4 :: real]. 0 \<le> d \<and> d \<le> 1"
    and r1: "\<forall>d\<in>set [1 / 2 :: real]. 0 \<le> d \<and> d \<le> 1"
    by simp_all
  have b: "\<bar>targetThrottle boat_init\<bar> \<le> 1" "\<bar>targetSteer boat_init\<bar> \<le> 1"
    by (simp_all add: boat_init_def)
  have l: "32 * real (length [1 / 4, 1 / 4 :: real]) \<le> 2 ^ 53"
    "32 * real (length [1 / 2 :: real]) \<le> 2 ^ 53"
    "(0::real) \<le> 1 / 4 \<and> (1 / 4 :: real) \<le> 1 / 2"
    by simp_all
  have e: "run_input (\<lambda>k. k = ''w'') [1 / 4, 1 / 4] boat_init = run_input (\<lambda>k. k = ''w'') [1 / 2] boat_init"
    using t by blast
  have n: "\<bar>targetThrottle (run_input_double (\<lambda>k. k = ''w'') [1 / 4, 1 / 4] boat_init)
        - targetThrottle (run_input (\<lambda>k. k = ''w'') [1 / 4, 1 / 4] boat_init)\<bar>
        \<le> 32 * real (length [1 / 4, 1 / 4 :: real]) / 2 ^ 53"
    using t r2 l b by blast
  have d: "\<bar>targetThrottle (run_input_double (\<lambda>k. k = ''w'') [1 / 4, 1 / 4] boat_init)
        - targetThrottle (run_input_double (\<lambda>k. k = ''w'') [1 / 2] boat_init)\<bar>
        \<le> 32 * real (length [1 / 4, 1 / 4 :: real] + length [1 / 2 :: real]) / 2 ^ 53"
    using t r2 r1 l b by blast
  have o: "\<bar>targetThrottle (updateInput_double (\<lambda>k. k = ''w'') (1 / 4)
                          (updateInput_double (\<lambda>k. k = ''w'') (1 / 4) boat_init))
        - targetThrottle (updateInput_double (\<lambda>k. k = ''w'') (2 * (1 / 4)) boat_init)\<bar> \<le> 96 / 2 ^ 53"
    using t l b by blast
  have n': "\<bar>targetThrottle (run_input_double (\<lambda>k. k = ''w'') [1 / 4, 1 / 4] boat_init)
        - targetThrottle (run_input (\<lambda>k. k = ''w'') [1 / 4, 1 / 4] boat_init)\<bar> \<le> 64 / 2 ^ 53"
    using n by simp
  have d': "\<bar>targetThrottle (run_input_double (\<lambda>k. k = ''w'') [1 / 4, 1 / 4] boat_init)
        - targetThrottle (run_input_double (\<lambda>k. k = ''w'') [1 / 2] boat_init)\<bar> \<le> 96 / 2 ^ 53"
    using d by simp
  have q: "(0::real) \<le> 1 / 4" "(1 / 4 :: real) \<le> 1" "(0::real) \<le> 1 / 2" "(1 / 2 :: real) \<le> 1"
    by simp_all
  show ?thesis
    using h e q b n' d' o by blast
qed

lemma updateBoat_speed:
  "speed (updateBoat smp dt t st) = speed (updateBoat_motion dt st)"
  by (simp add: updateBoat_def)

lemma updateBoat_motion_speed_lower: "- MAX_REV \<le> speed (updateBoat_motion dt st)"
  by (simp add: updateBoat_motion_def Let_def clamp_def MAX_REV_def MAX_FWD_def)

lemma updateBoat_motion_speed_upper: "speed (updateBoat_motion dt st) \<le> MAX_FWD"
  by (simp add: updateBoat_motion_def Let_def clamp_def MAX_REV_def MAX_FWD_def)

lemma tick_running_speed:
  "- MAX_REV \<le> speed (tick smp True pressed dt t st)
   \<and> speed (tick smp True pressed dt t st) \<le> MAX_FWD"
  by (simp add: tick_def updateBoat_speed updateBoat_motion_speed_lower
        updateBoat_motion_speed_upper)

lemma run_ticks_snoc:
  "run_ticks smp (frames @ [(pressed, dt, t)]) st = tick smp True pressed dt t (run_ticks smp frames st)"
  by (simp add: run_ticks_def)

lemma run_ticks_speed:
  assumes "- MAX_REV \<le> speed st" and "speed st \<le> MAX_FWD"
  shows "- MAX_REV \<le> speed (run_ticks smp frames st) \<and> speed (run_ticks smp frames st) \<le> MAX_FWD"
proof (induction frames rule: rev_induct)
  case Nil
  show ?case using assms by (simp add: run_ticks_def)
next
  case (snoc f frames)
  obtain pressed dt t where f: "f = (pressed, dt, t)"
    by (cases f) auto
  show ?case
    unfolding f run_ticks_snoc by (rule tick_running_speed)
qed

text \<open>
  Claim C7. After every tick of the running game, whatever the state before it, the tick
  size, the time and the keys, the forward speed lies in \<open>[- MAX_REV, MAX_FWD] = [-3, 14]\<close>;
  hence so does the speed after any run of ticks from the initial state.
\<close>

theorem C7_speed_within_bounds:
  "MAX_REV = 3 \<and> MAX_FWD = 14
   \<and> - MAX_REV \<le> speed (updateBoat smp dt t st) \<and> speed (updateBoat smp dt t st) \<le> MAX_FWD
   \<and> - MAX_REV \<le> speed (tick smp True pressed dt t st)
   \<and> speed (tick smp True pressed dt t st) \<le> MAX_FWD
   \<and> - MAX_REV \<le> speed (run_ticks smp frames boat_init)
   \<and> speed (run_ticks smp frames boat_init) \<le> MAX_FWD"
proof -
  have i: "- MAX_REV \<le> speed boat_init" "speed boat_init \<le> MAX_FWD"
    by (simp_all add: boat_init_def MAX_REV_def MAX_FWD_def)
  show ?thesis
    using run_ticks_speed [OF i, of smp frames] tick_running_speed [of smp pressed dt t st]
      updateBoat_motion_speed_lower [of dt st] updateBoat_motion_speed_upper [of dt st]
    by (simp add: updateBoat_speed) (simp add: MAX_REV_def MAX_FWD_def)
qed

section \<open>Space Runner: facts\<close>

lemma applySelectionFilter_replace:
  "applySelectionFilter e f False us =
     (map (\<lambda>u. if f (deselect_unit u) then select_unit (deselect_unit u) else deselect_unit u) us,
      emit e (SelectionChanged 0)
        @ emit e (SelectionChanged (length (filter (\<lambda>u. f (deselect_unit u)) us))))"
  by (simp add: applySelectionFilter_def clearSelection_def Let_def filter_map comp_def)

lemma selected_replace:
  "selected (if f (deselect_unit u) then select_unit (deselect_unit u) else deselect_unit u)
     = f (deselect_unit u)"
  by (simp add: select_unit_def deselect_unit_def)

lemma count_selected_replace:
  "length (filter selected
      (map (\<lambda>u. if f (deselect_unit u) then select_unit (deselect_unit u) else deselect_unit u) us))
   = length (filter (\<lambda>u. f (deselect_unit u)) us)"
  by (simp add: filter_map comp_def selected_replace)

lemma applySelectionFilter_replace_events:
  "snd (applySelectionFilter e f False us) =
     emit e (SelectionChanged 0)
       @ emit e (SelectionChanged (length (filter selected (fst (applySelectionFilter e f False us)))))"
  by (simp only: applySelectionFilter_replace fst_conv snd_conv count_selected_replace)

lemma onMouseUp_box:
  assumes "button ev = 0"
    and "hypot (clientX ev - fst (dragStart st)) (clientY ev - snd (dragStart st)) > 5"
  shows "onMouseUp e ev st =
           (st \<lparr> units := fst (applySelectionFilter e (box_filter e ev st) (shiftKey ev) (units st)),
                 dragging := False, dragStartGround := None \<rparr>,
            snd (applySelectionFilter e (box_filter e ev st) (shiftKey ev) (units st)))"
  using assms
  by (simp add: onMouseUp_def box_filter_def Let_def split: prod.splits option.splits)

lemma onMouseUp_click_hit:
  assumes "button ev = 0"
    and "\<not> hypot (clientX ev - fst (dragStart st)) (clientY ev - snd (dragStart st)) > 5"
    and "pickUnit e (clientX ev) (clientY ev) = Some h"
  shows "onMouseUp e ev st =
           (st \<lparr> units := fst (applySelectionFilter e (\<lambda>u. unit_id u = h) (shiftKey ev) (units st)),
                 dragging := False, dragStartGround := None \<rparr>,
            snd (applySelectionFilter e (\<lambda>u. unit_id u = h) (shiftKey ev) (units st)))"
  using assms
  by (simp add: onMouseUp_def Let_def split: prod.splits option.splits)

lemma onKeyDown_select_all:
  assumes "(ctrlKey kev \<or> metaKey kev) \<and> key_is_a (key kev)"
  shows "onKeyDown e kev st =
           (st \<lparr> units := fst (applySelectionFilter e (\<lambda>u. True) False (units st)) \<rparr>,
            snd (applySelectionFilter e (\<lambda>u. True) False (units st)))"
  using assms by (simp add: onKeyDown_def split: prod.splits)

text \<open>
  Claim C10. When the host listens, every application of a selection filter without the
  additive flag hands it two \<^verbatim>\<open>selection:changed\<close> events in this order: one with count
  \<open>0\<close>, from the clearing of the previous selection, and one with the number of units
  selected afterwards. This covers \<^verbatim>\<open>applySelectionFilter\<close> itself and its callers: a
  release of the primary button without shift that is a box selection or a click on a
  unit, and Ctrl+A or Meta+A.
\<close>

theorem C10_replace_emits_two_events:
  assumes "hasOnEvent e"
  shows "snd (applySelectionFilter e f False us) =
           [SelectionChanged 0,
            SelectionChanged (length (filter selected (fst (applySelectionFilter e f False us))))]
     \<and> (button ev = 0 \<and> \<not> shiftKey ev
          \<and> (hypot (clientX ev - fst (dragStart st)) (clientY ev - snd (dragStart st)) > 5
               \<or> pickUnit e (clientX ev) (clientY ev) \<noteq> None)
        \<longrightarrow> snd (onMouseUp e ev st) =
              [SelectionChanged 0,
               SelectionChanged (length (filter selected (units (fst (onMouseUp e ev st)))))])
     \<and> ((ctrlKey kev \<or> metaKey kev) \<and> key_is_a (key kev)
        \<longrightarrow> snd (onKeyDown e kev st) =
              [SelectionChanged 0,
               SelectionChanged (length (filter selected (units (fst (onKeyDown e kev st)))))])"
proof (intro conjI impI)
  show "snd (applySelectionFilter e f False us) =
           [SelectionChanged 0,
            SelectionChanged (length (filter selected (fst (applySelectionFilter e f False us))))]"
    using assms applySelectionFilter_replace_events [of e f us] by (simp add: emit_def)
next
  assume a: "button ev = 0 \<and> \<not> shiftKey ev
          \<and> (hypot (clientX ev - fst (dragStart st)) (clientY ev - snd (dragStart st)) > 5
               \<or> pickUnit e (clientX ev) (clientY ev) \<noteq> None)"
  show "snd (onMouseUp e ev st) =
              [SelectionChanged 0,
               SelectionChanged (length (filter selected (units (fst (onMouseUp e ev st)))))]"
  proof (cases "hypot (clientX ev - fst (dragStart st)) (clientY ev - snd (dragStart st)) > 5")
    case True
    show ?thesis
      using a assms applySelectionFilter_replace_events [of e "box_filter e ev st" "units st"]
      by (simp add: onMouseUp_box [OF _ True] emit_def)
  next
    case False
    then obtain h where h: "pickUnit e (clientX ev) (clientY ev) = Some h"
      using a by auto
    show ?thesis
      using a assms applySelectionFilter_replace_events [of e "\<lambda>u. unit_id u = h" "units st"]
      by (simp add: onMouseUp_click_hit [OF _ False h] emit_def)
  qed
next
  assume k: "(ctrlKey kev \<or> metaKey kev) \<and> key_is_a (key kev)"
  show "snd (onKeyDown e kev st) =
              [SelectionChanged 0,
               SelectionChanged (length (filter selected (units (fst (onKeyDown e kev st)))))]"
    using assms applySelectionFilter_replace_events [of e "\<lambda>u. True" "units st"]
    by (simp add: onKeyDown_select_all [OF k] emit_def)
qed

lemma world_rect_filter_deselect:
  "world_rect_filter g0 g1 (if a then u else deselect_unit u) =
     (min (vx g0) (vx g1) \<le> vx (position u) \<and> vx (position u) \<le> max (vx g0) (vx g1)
      \<and> min (vz g0) (vz g1) \<le> vz (position u) \<and> vz (position u) \<le> max (vz g0) (vz g1))"
  by (simp add: world_rect_filter_def deselect_unit_def Let_def)

lemma screen_rect_filter_deselect:
  "screen_rect_filter e c d (if a then u else deselect_unit u) =
     (min (fst c) (fst d) \<le> fst (projectToScreen e (position u))
      \<and> fst (projectToScreen e (position u)) \<le> max (fst c) (fst d)
      \<and> min (snd c) (snd d) \<le> snd (projectToScreen e (position u))
      \<and> snd (projectToScreen e (position u)) \<le> max (snd c) (snd d))"
  by (simp add: screen_rect_filter_def deselect_unit_def Let_def)

lemma applySelectionFilter_units:
  "fst (applySelectionFilter e f a us) =
     map (\<lambda>u. if f (if a then u else deselect_unit u)
               then select_unit (if a then u else deselect_unit u)
               else (if a then u else deselect_unit u)) us"
  by (simp add: applySelectionFilter_def clearSelection_def Let_def comp_def)

lemma applySelectionFilter_nth:
  assumes "i < length us"
  shows "unit_id (fst (applySelectionFilter e f a us) ! i) = unit_id (us ! i)"
    and "position (fst (applySelectionFilter e f a us) ! i) = position (us ! i)"
    and "selected (fst (applySelectionFilter e f a us) ! i) =
           ((a \<and> selected (us ! i)) \<or> f (if a then us ! i else deselect_unit (us ! i)))"
  using assms
  by (auto simp add: applySelectionFilter_units select_unit_def deselect_unit_def)

lemma applySelectionFilter_length: "length (fst (applySelectionFilter e f a us)) = length us"
  by (simp add: applySelectionFilter_units)

text \<open>
  Claim C4. On release of the primary button after a movement of more than five pixels
  the units keep their ids and positions. When both the drag origin and the release
  point hit the ground, the test applied to a unit is that the \<open>x\<close> and \<open>z\<close> of its position
  lie between the minimum and the maximum of the two ground points; when one of them
  missed the ground, the test is that its projection to the screen lies in the screen
  rectangle of the drag. Without shift the units selected afterwards are exactly those
  that pass the test, and the events handed to the host are \<^verbatim>\<open>selection:changed\<close> with
  count \<open>0\<close> followed by \<^verbatim>\<open>selection:changed\<close> with the number of selected units; with
  shift the units selected before stay selected as well.
\<close>

theorem C4_box_select:
  assumes "button ev = 0"
    and "hypot (clientX ev - fst (dragStart st)) (clientY ev - snd (dragStart st)) > 5"
  shows "length (units (fst (onMouseUp e ev st))) = length (units st)
     \<and> (\<forall>i < length (units st).
           unit_id (units (fst (onMouseUp e ev st)) ! i) = unit_id (units st ! i)
         \<and> position (units (fst (onMouseUp e ev st)) ! i) = position (units st ! i))
     \<and> (\<forall>g0 g1. dragStartGround st = Some g0 \<and> pickGround e (clientX ev) (clientY ev) = Some g1 \<longrightarrow>
          (\<forall>i < length (units st).
             selected (units (fst (onMouseUp e ev st)) ! i) =
               ((shiftKey ev \<and> selected (units st ! i))
                \<or> (min (vx g0) (vx g1) \<le> vx (position (units st ! i))
                    \<and> vx (position (units st ! i)) \<le> max (vx g0) (vx g1)
                    \<and> min (vz g0) (vz g1) \<le> vz (position (units st ! i))
                    \<and> vz (position (units st ! i)) \<le> max (vz g0) (vz g1)))))
     \<and> (dragStartGround st = None \<or> pickGround e (clientX ev) (clientY ev) = None \<longrightarrow>
          (\<forall>i < length (units st).
             selected (units (fst (onMouseUp e ev st)) ! i) =
               ((shiftKey ev \<and> selected (units st ! i))
                \<or> (min (fst (dragStart st)) (clientX ev) \<le> fst (projectToScreen e (position (units st ! i)))
                    \<and> fst (projectToScreen e (position (units st ! i))) \<le> max (fst (dragStart st)) (clientX ev)
                    \<and> min (snd (dragStart st)) (clientY ev) \<le> snd (projectToScreen e (position (units st ! i)))
                    \<and> snd (projectToScreen e (position (units st ! i))) \<le> max (snd (dragStart st)) (clientY ev)))))
     \<and> (\<not> shiftKey ev \<longrightarrow>
          snd (onMouseUp e ev st) =
            emit e (SelectionChanged 0)
              @ emit e (SelectionChanged (length (filter selected (units (fst (onMouseUp e ev st)))))))"
proof -
  let ?f = "box_filter e ev st"
  have up: "units (fst (onMouseUp e ev st)) = fst (applySelectionFilter e ?f (shiftKey ev) (units st))"
    and ev: "snd (onMouseUp e ev st) = snd (applySelectionFilter e ?f (shiftKey ev) (units st))"
    by (simp_all add: onMouseUp_box [OF assms(1) assms(2)])
  have world: "?f = world_rect_filter g0 g1"
    if "dragStartGround st = Some g0" "pickGround e (clientX ev) (clientY ev) = Some g1" for g0 g1
    using that by (simp add: box_filter_def)
  have screen: "?f = screen_rect_filter e (dragStart st) (clientX ev, clientY ev)"
    if "dragStartGround st = None \<or> pickGround e (clientX ev) (clientY ev) = None"
    using that by (auto simp add: box_filter_def split: option.splits)
  show ?thesis
  proof (intro conjI allI impI)
    show "length (units (fst (onMouseUp e ev st))) = length (units st)"
      by (simp add: up applySelectionFilter_length)
  next
    fix i assume "i < length (units st)"
    then show "unit_id (units (fst (onMouseUp e ev st)) ! i) = unit_id (units st ! i)"
      and "position (units (fst (onMouseUp e ev st)) ! i) = position (units st ! i)"
      by (simp_all add: up applySelectionFilter_nth)
  next
    fix g0 g1 i
    assume g: "dragStartGround st = Some g0 \<and> pickGround e (clientX ev) (clientY ev) = Some g1"
      and i: "i < length (units st)"
    have "?f = world_rect_filter g0 g1" using g world by blast
    then show "selected (units (fst (onMouseUp e ev st)) ! i) =
               ((shiftKey ev \<and> selected (units st ! i))
                \<or> (min (vx g0) (vx g1) \<le> vx (position (units st ! i))
                    \<and> vx (position (units st ! i)) \<le> max (vx g0) (vx g1)
                    \<and> min (vz g0) (vz g1) \<le> vz (position (units st ! i))
                    \<and> vz (position (units st ! i)) \<le> max (vz g0) (vz g1)))"
      using i by (simp only: up applySelectionFilter_nth world_rect_filter_deselect)
  next
    fix i
    assume g: "dragStartGround st = None \<or> pickGround e (clientX ev) (clientY ev) = None"
      and i: "i < length (units st)"
    have "?f = screen_rect_filter e (dragStart st) (clientX ev, clientY ev)"
      using g by (rule screen)
    then show "selected (units (fst (onMouseUp e ev st)) ! i) =
               ((shiftKey ev \<and> selected (units st ! i))
                \<or> (min (fst (dragStart st)) (clientX ev) \<le> fst (projectToScreen e (position (units st ! i)))
                    \<and> fst (projectToScreen e (position (units st ! i))) \<le> max (fst (dragStart st)) (clientX ev)
                    \<and> min (snd (dragStart st)) (clientY ev) \<le> snd (projectToScreen e (position (units st ! i)))
                    \<and> snd (projectToScreen e (position (units st ! i))) \<le> max (snd (dragStart st)) (clientY ev)))"
      using i by (simp only: up applySelectionFilter_nth screen_rect_filter_deselect fst_conv snd_conv)
  next
    assume "\<not> shiftKey ev"
    then show "snd (onMouseUp e ev st) =
          emit e (SelectionChanged 0)
            @ emit e (SelectionChanged (length (filter selected (units (fst (onMouseUp e ev st))))))"
      by (simp add: up ev applySelectionFilter_replace_events)
  qed
qed

lemma fixture_release_moved:
  "button fixture_release = 0
   \<and> hypot (clientX fixture_release - fst (dragStart fixture_game))
         (clientY fixture_release - snd (dragStart fixture_game)) > 5
   \<and> \<not> shiftKey fixture_release"
  by (simp add: fixture_release_def fixture_game_def hypot_def)

lemma fixture_box_result:
  "map selected (units (fst (onMouseUp fixture_env fixture_release fixture_game))) = [True, False, True]"
  by (simp add: onMouseUp_def hypot_def Let_def applySelectionFilter_def clearSelection_def
        fixture_game_def fixture_env_def fixture_release_def fixture_units_def
        world_rect_filter_def spawnUnit_def select_unit_def deselect_unit_def)

theorem C4_box_select_witness:
  "button fixture_release = 0
   \<and> hypot (clientX fixture_release - fst (dragStart fixture_game))
         (clientY fixture_release - snd (dragStart fixture_game)) > 5
   \<and> \<not> shiftKey fixture_release
   \<and> map unit_id (units fixture_game) = [1, 2, 3]
   \<and> map selected (units fixture_game) = [False, True, False]
   \<and> map selected (units (fst (onMouseUp fixture_env fixture_release fixture_game)))
       = [True, False, True]
   \<and> snd (onMouseUp fixture_env fixture_release fixture_game)
       = [SelectionChanged 0, SelectionChanged 2]"
proof -
  have h: "button fixture_release = 0"
    "hypot (clientX fixture_release - fst (dragStart fixture_game))
         (clientY fixture_release - snd (dragStart fixture_game)) > 5"
    "\<not> shiftKey fixture_release"
    using fixture_release_moved by simp_all
  have c: "length (filter selected (units (fst (onMouseUp fixture_env fixture_release fixture_game)))) = 2"
    by (simp add: onMouseUp_def hypot_def Let_def applySelectionFilter_def clearSelection_def
        fixture_game_def fixture_env_def fixture_release_def fixture_units_def
        world_rect_filter_def spawnUnit_def select_unit_def deselect_unit_def)
  have u: "map unit_id (units fixture_game) = [1, 2, 3]"
    "map selected (units fixture_game) = [False, True, False]"
    by (simp_all add: fixture_game_def fixture_units_def spawnUnit_def select_unit_def)
  show ?thesis
    using C4_box_select [OF h(1) h(2), of fixture_env] h c u fixture_box_result
    by (simp add: emit_def fixture_env_def)
qed

theorem C10_replace_witness:
  "hasOnEvent fixture_env
   \<and> snd (applySelectionFilter fixture_env (\<lambda>u. unit_id u = 3) False fixture_units)
       = [SelectionChanged 0, SelectionChanged 1]
   \<and> button fixture_release = 0 \<and> \<not> shiftKey fixture_release
   \<and> hypot (clientX fixture_release - fst (dragStart fixture_game))
         (clientY fixture_release - snd (dragStart fixture_game)) > 5
   \<and> snd (onMouseUp fixture_env fixture_release fixture_game)
       = [SelectionChanged 0, SelectionChanged 2]
   \<and> ctrlKey fixture_ctrl_a \<and> key_is_a (key fixture_ctrl_a)
   \<and> snd (onKeyDown fixture_env fixture_ctrl_a fixture_game)
       = [SelectionChanged 0, SelectionChanged 3]"
proof -
  have h: "hasOnEvent fixture_env"
    by (simp add: fixture_env_def)
  have m: "button fixture_release = 0 \<and> \<not> shiftKey fixture_release
          \<and> (hypot (clientX fixture_release - fst (dragStart fixture_game))
                (clientY fixture_release - snd (dragStart fixture_game)) > 5
               \<or> pickUnit fixture_env (clientX fixture_release) (clientY fixture_release) \<noteq> None)"
    using fixture_release_moved by simp
  have k: "(ctrlKey fixture_ctrl_a \<or> metaKey fixture_ctrl_a) \<and> key_is_a (key fixture_ctrl_a)"
    by (simp add: fixture_ctrl_a_def key_is_a_def)
  have c1: "length (filter selected
              (fst (applySelectionFilter fixture_env (\<lambda>u. unit_id u = 3) False fixture_units))) = 1"
    by (simp add: applySelectionFilter_def clearSelection_def Let_def fixture_units_def
          spawnUnit_def select_unit_def deselect_unit_def)
  have c2: "length (filter selected
              (units (fst (onMouseUp fixture_env fixture_release fixture_game)))) = 2"
    by (simp add: onMouseUp_def hypot_def Let_def applySelectionFilter_def clearSelection_def
          fixture_game_def fixture_env_def fixture_release_def fixture_units_def
          world_rect_filter_def spawnUnit_def select_unit_def deselect_unit_def)
  have c3: "length (filter selected
              (units (fst (onKeyDown fixture_env fixture_ctrl_a fixture_game)))) = 3"
    by (simp add: onKeyDown_def key_is_a_def Let_def applySelectionFilter_def clearSelection_def
          fixture_game_def fixture_ctrl_a_def fixture_units_def
          spawnUnit_def select_unit_def deselect_unit_def)
  note t = C10_replace_emits_two_events [OF h, of "\<lambda>u. unit_id u = 3" fixture_units
        fixture_release fixture_game fixture_ctrl_a]
  have r1: "snd (applySelectionFilter fixture_env (\<lambda>u. unit_id u = 3) False fixture_units)
       = [SelectionChanged 0, SelectionChanged 1]"
    using t c1 by simp
  have r2: "snd (onMouseUp fixture_env fixture_release fixture_game)
       = [SelectionChanged 0, SelectionChanged 2]"
  proof -
    from t m have "snd (onMouseUp fixture_env fixture_release fixture_game) =
              [SelectionChanged 0,
               SelectionChanged (length (filter selected
                  (units (fst (onMouseUp fixture_env fixture_release fixture_game)))))]"
      by blast
    then show ?thesis by (simp only: c2)
  qed
  have r3: "snd (onKeyDown fixture_env fixture_ctrl_a fixture_game)
       = [SelectionChanged 0, SelectionChanged 3]"
  proof -
    from t k have "snd (onKeyDown fixture_env fixture_ctrl_a fixture_game) =
              [SelectionChanged 0,
               SelectionChanged (length (filter selected
                  (units (fst (onKeyDown fixture_env fixture_ctrl_a fixture_game)))))]"
      by blast
    then show ?thesis by (simp only: c3)
  qed
  have c: "ctrlKey fixture_ctrl_a"
    by (simp add: fixture_ctrl_a_def)
  show ?thesis
    using h r1 r2 r3 k c fixture_release_moved by blast
qed

lemma side_pos:
  assumes "1 \<le> n"
  shows "0 < nat \<lceil>sqrt (real n)\<rceil>"
proof -
  have "0 < sqrt (real n)" using assms by simp
  then have "0 < \<lceil>sqrt (real n)\<rceil>" by linarith
  then show ?thesis by simp
qed

lemma side_square: "n \<le> nat \<lceil>sqrt (real n)\<rceil> * nat \<lceil>sqrt (real n)\<rceil>"
proof -
  let ?s = "nat \<lceil>sqrt (real n)\<rceil>"
  have "sqrt (real n) \<le> real_of_int \<lceil>sqrt (real n)\<rceil>" by linarith
  also have "\<dots> = real ?s"
  proof -
    have "(0::real) \<le> sqrt (real n)" by simp
    then have "- 1 < sqrt (real n)" by linarith
    then have "0 \<le> \<lceil>sqrt (real n)\<rceil>" by simp
    then show ?thesis by simp
  qed
  finally have le: "sqrt (real n) \<le> real ?s" .
  have "real n = sqrt (real n) * sqrt (real n)" by simp
  also have "\<dots> \<le> real ?s * real ?s"
  proof -
    have a: "0 \<le> real ?s" by (rule of_nat_0_le_iff)
    have b: "0 \<le> sqrt (real n)" by (rule real_sqrt_ge_zero) (rule of_nat_0_le_iff)
    show ?thesis by (rule mult_mono [OF le le a b])
  qed
  finally have "real n \<le> real (?s * ?s)" by simp
  then show ?thesis by (simp only: of_nat_le_iff)
qed

lemma formationOffsets_length: "length (formationOffsets n) = n"
  by (simp add: formationOffsets_def Let_def)

lemma formationOffsets_nth:
  assumes "i < n"
  shows "formationOffsets n ! i =
           Vector3 ((real (i mod nat \<lceil>sqrt (real n)\<rceil>) - (real (nat \<lceil>sqrt (real n)\<rceil>) - 1) * 0.5) * 1.4)
                   0
                   ((real (i div nat \<lceil>sqrt (real n)\<rceil>) - (real (nat \<lceil>sqrt (real n)\<rceil>) - 1) * 0.5) * 1.4)"
  using assms by (simp add: formationOffsets_def Let_def)

lemma formation_cell:
  assumes "i < n"
  shows "i mod nat \<lceil>sqrt (real n)\<rceil> < nat \<lceil>sqrt (real n)\<rceil>"
    and "i div nat \<lceil>sqrt (real n)\<rceil> < nat \<lceil>sqrt (real n)\<rceil>"
proof -
  let ?s = "nat \<lceil>sqrt (real n)\<rceil>"
  have pos: "0 < ?s" using assms side_pos [of n] by simp
  show "i mod ?s < ?s" using pos by simp
  have "i < ?s * ?s" using assms side_square [of n] by simp
  then show "i div ?s < ?s"
    using pos by (simp add: less_mult_imp_div_less)
qed

lemma formationOffsets_inj:
  assumes "i < n" and "j < n" and "formationOffsets n ! i = formationOffsets n ! j"
  shows "i = j"
proof -
  let ?s = "nat \<lceil>sqrt (real n)\<rceil>"
  have "i mod ?s = j mod ?s" and "i div ?s = j div ?s"
    using assms(3) by (simp_all add: formationOffsets_nth assms(1) assms(2))
  then show ?thesis
    by (metis div_mult_mod_eq)
qed

lemma formationOffsets_distinct: "distinct (formationOffsets n)"
  unfolding distinct_conv_nth
  using formationOffsets_inj [of _ n] by (auto simp add: formationOffsets_length)

lemma assign_targets_selected_ids:
  "map unit_id (filter selected (assign_targets p offs i us)) = map unit_id (filter selected us)"
  by (induction us arbitrary: i) simp_all

lemma assign_targets_unselected:
  "filter (\<lambda>u. \<not> selected u) (assign_targets p offs i us) = filter (\<lambda>u. \<not> selected u) us"
  by (induction us arbitrary: i) simp_all

lemma assign_targets_targets:
  "map target (filter selected (assign_targets p offs i us)) =
     map (\<lambda>j. Some (add3 p (offs ! j))) [i..<i + length (filter selected us)]"
proof (induction us arbitrary: i)
  case Nil
  show ?case by simp
next
  case (Cons u us)
  show ?case
  proof (cases "selected u")
    case True
    have "i < i + Suc (length (filter selected us))" by simp
    then have "[i..<i + Suc (length (filter selected us))]
                 = i # [Suc i..<i + Suc (length (filter selected us))]"
      by (rule upt_conv_Cons)
    moreover have "i + Suc (length (filter selected us)) = Suc i + length (filter selected us)"
      by simp
    ultimately have "[i..<i + Suc (length (filter selected us))]
                 = i # [Suc i..<Suc i + length (filter selected us)]"
      by (simp only:)
    then have "map (\<lambda>j. Some (add3 p (offs ! j))) [i..<i + length (filter selected (u # us))]
                 = Some (add3 p (offs ! i))
                   # map (\<lambda>j. Some (add3 p (offs ! j))) [Suc i..<Suc i + length (filter selected us)]"
      using True by (simp del: upt_Suc)
    then show ?thesis using True Cons.IH [of "Suc i"] by (simp del: upt_Suc)
  next
    case False
    then show ?thesis using Cons.IH [of i] by simp
  qed
qed

lemma assign_targets_hadTarget:
  assumes "u \<in> set (assign_targets p offs i us)" and "selected u"
  shows "hadTarget u \<and> target u \<noteq> None"
  using assms by (induction us arbitrary: i) (auto split: if_splits)

lemma add3_inject: "add3 p a = add3 p b \<Longrightarrow> a = b"
  by (cases a; cases b) (simp add: add3_def)

lemma formation_targets_distinct:
  "distinct (map (\<lambda>i. Some (add3 p (formationOffsets n ! i))) [0..<n])"
proof -
  have "inj_on (\<lambda>i. Some (add3 p (formationOffsets n ! i))) (set [0..<n])"
  proof (rule inj_onI)
    fix i j
    assume "i \<in> set [0..<n]" "j \<in> set [0..<n]"
      and "Some (add3 p (formationOffsets n ! i)) = Some (add3 p (formationOffsets n ! j))"
    then show "i = j"
      using formationOffsets_inj [of i n j] add3_inject by auto
  qed
  then show ?thesis by (simp add: distinct_map)
qed

lemma onContextMenu_command:
  assumes "pickGround e (clientX ev) (clientY ev) = Some p"
    and "1 \<le> length (filter selected (units st))"
  shows "onContextMenu e ev st =
           (st \<lparr> units := assign_targets p (formationOffsets (length (filter selected (units st)))) 0 (units st),
                 markers := spawnOrderMarker p (markers st) \<rparr>,
            emit e (CommandMove (vx p) (vz p) (length (filter selected (units st)))))"
  using assms by (cases "filter selected (units st)") (simp_all add: onContextMenu_def Let_def)

text \<open>
  Claim C8. A right click that hits the ground at \<open>p\<close> while \<open>N \<ge> 1\<close> units are selected
  hands the host exactly one \<^verbatim>\<open>command:move\<close> event, carrying \<open>p.x\<close>, \<open>p.z\<close> and \<open>N\<close>. The
  selected units stay the same; the \<open>i\<close>-th of them gets the target \<open>p\<close> plus the \<open>i\<close>-th
  formation offset; these targets are pairwise different, as are the offsets; the
  \<open>i\<close>-th offset is the cell (column \<open>i mod side\<close>, row \<open>i div side\<close>) of a square grid of
  side \<open>side = \<lceil>sqrt N\<rceil>\<close> with spacing \<open>1.4\<close>, centred on \<open>p\<close>; units that are not selected
  are left as they were.
\<close>

theorem C8_move_command:
  assumes "hasOnEvent e"
    and "pickGround e (clientX ev) (clientY ev) = Some p"
    and "N = length (filter selected (units st))"
    and "1 \<le> N"
  shows "snd (onContextMenu e ev st) = [CommandMove (vx p) (vz p) N]
     \<and> map unit_id (filter selected (units (fst (onContextMenu e ev st))))
         = map unit_id (filter selected (units st))
     \<and> map target (filter selected (units (fst (onContextMenu e ev st))))
         = map (\<lambda>i. Some (add3 p (formationOffsets N ! i))) [0..<N]
     \<and> distinct (map target (filter selected (units (fst (onContextMenu e ev st)))))
     \<and> distinct (formationOffsets N)
     \<and> (\<forall>i<N. formationOffsets N ! i =
            Vector3 ((real (i mod nat \<lceil>sqrt (real N)\<rceil>) - (real (nat \<lceil>sqrt (real N)\<rceil>) - 1) * 0.5) * 1.4)
                    0
                    ((real (i div nat \<lceil>sqrt (real N)\<rceil>) - (real (nat \<lceil>sqrt (real N)\<rceil>) - 1) * 0.5) * 1.4)
          \<and> i mod nat \<lceil>sqrt (real N)\<rceil> < nat \<lceil>sqrt (real N)\<rceil>
          \<and> i div nat \<lceil>sqrt (real N)\<rceil> < nat \<lceil>sqrt (real N)\<rceil>)
     \<and> filter (\<lambda>u. \<not> selected u) (units (fst (onContextMenu e ev st)))
         = filter (\<lambda>u. \<not> selected u) (units st)"
proof -
  have sel: "1 \<le> length (filter selected (units st))"
    using assms(3) assms(4) by simp
  note cm = onContextMenu_command [OF assms(2) sel, folded assms(3)]
  have t: "map target (filter selected (units (fst (onContextMenu e ev st))))
         = map (\<lambda>i. Some (add3 p (formationOffsets N ! i))) [0..<N]"
    by (simp add: cm assign_targets_targets assms(3))
  have g: "\<forall>i<N. formationOffsets N ! i =
            Vector3 ((real (i mod nat \<lceil>sqrt (real N)\<rceil>) - (real (nat \<lceil>sqrt (real N)\<rceil>) - 1) * 0.5) * 1.4)
                    0
                    ((real (i div nat \<lceil>sqrt (real N)\<rceil>) - (real (nat \<lceil>sqrt (real N)\<rceil>) - 1) * 0.5) * 1.4)
          \<and> i mod nat \<lceil>sqrt (real N)\<rceil> < nat \<lceil>sqrt (real N)\<rceil>
          \<and> i div nat \<lceil>sqrt (real N)\<rceil> < nat \<lceil>sqrt (real N)\<rceil>"
    using formationOffsets_nth formation_cell by blast
  show ?thesis
  proof (intro conjI)
    show "snd (onContextMenu e ev st) = [CommandMove (vx p) (vz p) N]"
      using assms(1) by (simp add: cm emit_def)
    show "map unit_id (filter selected (units (fst (onContextMenu e ev st))))
         = map unit_id (filter selected (units st))"
      by (simp add: cm assign_targets_selected_ids)
    show "map target (filter selected (units (fst (onContextMenu e ev st))))
         = map (\<lambda>i. Some (add3 p (formationOffsets N ! i))) [0..<N]"
      by (rule t)
    show "distinct (map target (filter selected (units (fst (onContextMenu e ev st)))))"
      unfolding t by (rule formation_targets_distinct)
    show "distinct (formationOffsets N)"
      by (rule formationOffsets_distinct)
    show "\<forall>i<N. formationOffsets N ! i =
            Vector3 ((real (i mod nat \<lceil>sqrt (real N)\<rceil>) - (real (nat \<lceil>sqrt (real N)\<rceil>) - 1) * 0.5) * 1.4)
                    0
                    ((real (i div nat \<lceil>sqrt (real N)\<rceil>) - (real (nat \<lceil>sqrt (real N)\<rceil>) - 1) * 0.5) * 1.4)
          \<and> i mod nat \<lceil>sqrt (real N)\<rceil> < nat \<lceil>sqrt (real N)\<rceil>
          \<and> i div nat \<lceil>sqrt (real N)\<rceil> < nat \<lceil>sqrt (real N)\<rceil>"
      by (rule g)
    show "filter (\<lambda>u. \<not> selected u) (units (fst (onContextMenu e ev st)))
         = filter (\<lambda>u. \<not> selected u) (units st)"
      by (simp add: cm assign_targets_unselected)
  qed
qed

lemma formationOffsets_4:
  "formationOffsets 4 = [Vector3 (- 0.7) 0 (- 0.7), Vector3 0.7 0 (- 0.7),
                         Vector3 (- 0.7) 0 0.7, Vector3 0.7 0 0.7]"
  by (simp add: formationOffsets_def Let_def upt_rec)

theorem C8_move_command_witness:
  "hasOnEvent fixture_env
   \<and> pickGround fixture_env (clientX fixture_rightclick) (clientY fixture_rightclick)
       = Some (Vector3 2 0 2)
   \<and> 4 = length (filter selected (units fixture_squad))
   \<and> snd (onContextMenu fixture_env fixture_rightclick fixture_squad) = [CommandMove 2 2 4]
   \<and> map target (filter selected (units (fst (onContextMenu fixture_env fixture_rightclick fixture_squad))))
       = [Some (Vector3 1.3 0 1.3), Some (Vector3 2.7 0 1.3),
          Some (Vector3 1.3 0 2.7), Some (Vector3 2.7 0 2.7)]"
proof -
  have h: "hasOnEvent fixture_env"
    by (simp add: fixture_env_def)
  have g: "pickGround fixture_env (clientX fixture_rightclick) (clientY fixture_rightclick)
       = Some (Vector3 2 0 2)"
    by (simp add: fixture_env_def)
  have n: "4 = length (filter selected (units fixture_squad))"
    by (simp add: fixture_squad_def select_unit_def)
  have one: "1 \<le> (4::nat)" by simp
  note t = C8_move_command [OF h g n one]
  have r: "map (\<lambda>i. Some (add3 (Vector3 2 0 2) (formationOffsets 4 ! i))) [0..<4]
       = [Some (Vector3 1.3 0 1.3), Some (Vector3 2.7 0 1.3),
          Some (Vector3 1.3 0 2.7), Some (Vector3 2.7 0 2.7)]"
    by (simp add: formationOffsets_4 add3_def upt_rec)
  show ?thesis
    using t h g n r by simp
qed

lemma seek_no_target:
  assumes "target u = None"
  shows "seek e dt u = (u, [])"
  using assms by (simp add: seek_def)

lemma seek_flag_set:
  assumes "flag_set u"
  shows "flag_set (fst (seek e dt u))"
  using assms by (auto simp add: seek_def Let_def flag_set_def split: option.splits)

lemma updateUnit_fst:
  "fst (updateUnit e dt s i) =
     (fst s)[i := fst (seek e dt ((fst s ! i) \<lparr> position :=
                         addScaledVector (position (fst s ! i)) (separation (fst s) i) dt \<rparr>))]"
  by (simp add: updateUnit_def Let_def split: prod.splits)

lemma updateUnit_length: "length (fst (updateUnit e dt s i)) = length (fst s)"
  by (simp add: updateUnit_fst)

lemma updateUnit_other:
  assumes "j \<noteq> i"
  shows "fst (updateUnit e dt s i) ! j = fst s ! j"
  using assms by (simp add: updateUnit_fst)

lemma updateUnit_flag_set:
  assumes "list_all flag_set (fst s)"
  shows "list_all flag_set (fst (updateUnit e dt s i))"
proof (cases "i < length (fst s)")
  case True
  let ?u1 = "(fst s ! i) \<lparr> position :=
               addScaledVector (position (fst s ! i)) (separation (fst s) i) dt \<rparr>"
  have "flag_set (fst s ! i)"
    using assms True by (simp add: list_all_length)
  then have "flag_set ?u1"
    by (simp add: flag_set_def)
  then have f: "flag_set (fst (seek e dt ?u1))"
    by (rule seek_flag_set)
  have "set ((fst s)[i := fst (seek e dt ?u1)]) \<subseteq> insert (fst (seek e dt ?u1)) (set (fst s))"
    by (rule set_update_subset_insert)
  then have "\<forall>u \<in> set ((fst s)[i := fst (seek e dt ?u1)]). flag_set u"
    using assms f by (auto simp add: list_all_iff)
  then show ?thesis
    by (simp add: updateUnit_fst list_all_iff)
next
  case False
  then have "length (fst s) \<le> i" by simp
  then show ?thesis using assms by (simp add: updateUnit_fst list_update_beyond)
qed

lemma foldl_updateUnit_flag_set:
  assumes "list_all flag_set (fst s)"
  shows "list_all flag_set (fst (foldl (updateUnit e dt) s is))"
  using assms by (induction "is" arbitrary: s) (simp_all add: updateUnit_flag_set)

lemma updateUnits_flag_set:
  assumes "list_all flag_set us"
  shows "list_all flag_set (fst (updateUnits e dt us))"
  unfolding updateUnits_def using assms by (intro foldl_updateUnit_flag_set) simp

lemma assign_targets_flag_set:
  assumes "list_all flag_set us"
  shows "list_all flag_set (assign_targets p offs i us)"
  using assms by (induction us arbitrary: i) (simp_all add: flag_set_def)

lemma onContextMenu_flag_set:
  assumes "list_all flag_set (units st)"
  shows "list_all flag_set (units (fst (onContextMenu e ev st)))"
  using assms
  by (simp add: onContextMenu_def Let_def assign_targets_flag_set split: option.splits)

lemma initial_units_flag_set: "list_all flag_set initial_units"
  by (simp add: initial_units_def list_all_iff spawnUnit_def flag_set_def)

lemma arrival_commanded:
  "units (fst (onContextMenu arrival_env fixture_rightclick arrival_game)) =
     [(select_unit (spawnUnit 1 0 0)) \<lparr> target := Some (Vector3 0 0 0), hadTarget := True \<rparr>]"
  by (simp add: onContextMenu_def arrival_env_def arrival_game_def Let_def select_unit_def
        spawnUnit_def formationOffsets_def add3_def)

lemma arrival_tick:
  "updateUnits arrival_env (1 / 60)
     [(select_unit (spawnUnit 1 0 0)) \<lparr> target := Some (Vector3 0 0 0), hadTarget := True \<rparr>]
   = ([(select_unit (spawnUnit 1 0 0)) \<lparr> target := None, hadTarget := False \<rparr>],
      [UnitArrived 1 0 0])"
  by (simp add: updateUnits_def updateUnit_def separation_def seek_def Let_def emit_def
        arrival_env_def select_unit_def spawnUnit_def addScaledVector_def setY_def sub3_def
        length3_def)

text \<open>
  Claim C5, as stated, fails. Unit 1 stands at \<open>(0, 0)\<close>, is selected, has no target and
  has never been commanded. A right click on the ground point \<open>(0, 0)\<close> assigns it that
  point as its target. The very next call of \<^verbatim>\<open>updateUnits\<close> finds the target within the
  arrival distance, clears it, and hands the host \<^verbatim>\<open>unit:arrived\<close> for unit 1.
\<close>

theorem C5_arrival_counterexample:
  "map target (units arrival_game) = [None]
   \<and> map hadTarget (units arrival_game) = [False]
   \<and> map target (units (fst (onContextMenu arrival_env fixture_rightclick arrival_game)))
       = [Some (Vector3 0 0 0)]
   \<and> snd (updateUnits arrival_env (1 / 60)
            (units (fst (onContextMenu arrival_env fixture_rightclick arrival_game))))
       = [UnitArrived 1 0 0]"
  unfolding arrival_commanded arrival_tick
  by (simp add: arrival_game_def select_unit_def spawnUnit_def)

lemma upto_Suc:
  "updateUnits_upto e dt us (Suc m) = updateUnit e dt (updateUnits_upto e dt us m) m"
  by (simp add: updateUnits_upto_def)

lemma upto_all: "updateUnits e dt us = updateUnits_upto e dt us (length us)"
  by (simp add: updateUnits_def updateUnits_upto_def)

lemma upto_length: "length (fst (updateUnits_upto e dt us m)) = length us"
  by (induction m) (simp_all add: upto_Suc updateUnit_length, simp add: updateUnits_upto_def)

lemma upto_later:
  assumes "m \<le> j"
  shows "fst (updateUnits_upto e dt us m) ! j = us ! j"
  using assms
proof (induction m)
  case 0
  show ?case by (simp add: updateUnits_upto_def)
next
  case (Suc m)
  then have "j \<noteq> m" and "m \<le> j" by simp_all
  then show ?case
    using Suc.IH by (simp add: upto_Suc updateUnit_other)
qed

lemma updateUnit_turn:
  "updateUnit e dt (updateUnits_upto e dt us m) m =
     ((fst (updateUnits_upto e dt us m))[m := fst (seek e dt (separated e dt us m))],
      snd (updateUnits_upto e dt us m) @ snd (seek e dt (separated e dt us m)))"
  by (simp add: updateUnit_def separated_def Let_def split: prod.splits)

lemma upto_earlier:
  assumes "j < m" and "m \<le> length us"
  shows "fst (updateUnits_upto e dt us m) ! j = fst (seek e dt (separated e dt us j))"
  using assms
proof (induction m)
  case 0
  then show ?case by simp
next
  case (Suc m)
  show ?case
  proof (cases "j = m")
    case True
    have "m < length (fst (updateUnits_upto e dt us m))"
      using Suc.prems by (simp add: upto_length)
    then show ?thesis
      by (simp add: upto_Suc updateUnit_turn True)
  next
    case False
    then have "j < m" using Suc.prems by simp
    then show ?thesis
      using Suc.IH Suc.prems False by (simp add: upto_Suc updateUnit_other)
  qed
qed

lemma upto_events:
  "snd (updateUnits_upto e dt us m) =
     concat (map (\<lambda>j. snd (seek e dt (separated e dt us j))) [0..<m])"
proof (induction m)
  case 0
  show ?case by (simp add: updateUnits_upto_def)
next
  case (Suc m)
  then show ?case by (simp add: upto_Suc updateUnit_turn)
qed

lemma separated_eq:
  "separated e dt us i =
     (us ! i) \<lparr> position := addScaledVector (position (us ! i))
                               (separation (fst (updateUnits_upto e dt us i)) i) dt \<rparr>"
  by (simp add: separated_def Let_def upto_later)

lemma separated_fields:
  "unit_id (separated e dt us i) = unit_id (us ! i)"
  "target (separated e dt us i) = target (us ! i)"
  "hadTarget (separated e dt us i) = hadTarget (us ! i)"
  "selected (separated e dt us i) = selected (us ! i)"
  "unit_speed (separated e dt us i) = unit_speed (us ! i)"
  by (simp_all add: separated_eq)

lemma updateUnits_nth:
  assumes "i < length us"
  shows "fst (updateUnits e dt us) ! i = fst (seek e dt (separated e dt us i))"
  using assms by (simp add: upto_all upto_earlier)

lemma updateUnits_events_eq:
  "snd (updateUnits e dt us) =
     concat (map (\<lambda>j. snd (seek e dt (separated e dt us j))) [0..<length us])"
  by (simp add: upto_all upto_events)

text \<open>What the seek step hands to the host for one unit.\<close>

lemma seek_snd:
  "snd (seek e dt u) =
     (case target u of
        None \<Rightarrow> []
      | Some tg \<Rightarrow>
          if remaining tg u < 0.12 \<and> hadTarget u
          then emit e (UnitArrived (unit_id u) (vx (position u)) (vz (position u)))
          else [])"
  by (simp add: seek_def remaining_def Let_def split: option.splits)

lemma seek_fst_arrive:
  assumes "target u = Some tg" and "remaining tg u < 0.12"
  shows "fst (seek e dt u) = u \<lparr> target := None, hadTarget := False \<rparr>"
  using assms by (cases "hadTarget u") (simp_all add: seek_def remaining_def Let_def)

lemma seek_fst_travel:
  assumes "target u = Some tg" and "\<not> remaining tg u < 0.12"
  shows "fst (seek e dt u) =
           u \<lparr> position := addScaledVector (position u)
                              (normalize3 (setY (sub3 tg (position u)) 0)) (unit_speed u * dt) \<rparr>"
  using assms by (simp add: seek_def remaining_def Let_def)

lemma seek_separated_snd:
  "snd (seek e dt (separated e dt us j)) =
     (case target (us ! j) of
        None \<Rightarrow> []
      | Some tg \<Rightarrow>
          if remaining tg (separated e dt us j) < 0.12 \<and> hadTarget (us ! j)
          then emit e (UnitArrived (unit_id (us ! j))
                 (vx (position (separated e dt us j)))
                 (vz (position (separated e dt us j))))
          else [])"
  by (simp add: seek_snd separated_fields split: option.splits)

lemma updateUnits_length: "length (fst (updateUnits e dt us)) = length us"
  by (simp add: upto_all upto_length)

lemma updateUnits_arrival_event:
  assumes "hasOnEvent e" and "i < length us" and "target (us ! i) = Some tg"
    and "remaining tg (separated e dt us i) < 0.12" and "hadTarget (us ! i)"
  shows "UnitArrived (unit_id (us ! i)) (vx (position (separated e dt us i)))
           (vz (position (separated e dt us i))) \<in> set (snd (updateUnits e dt us))"
proof -
  have "snd (seek e dt (separated e dt us i)) =
          [UnitArrived (unit_id (us ! i)) (vx (position (separated e dt us i)))
             (vz (position (separated e dt us i)))]"
    using assms by (simp add: seek_snd separated_fields emit_def)
  moreover have "i \<in> set [0..<length us]"
    using assms(2) by simp
  ultimately show ?thesis
    unfolding updateUnits_events_eq set_concat by force
qed

text \<open>
  Claim C5, amended. One call of \<^verbatim>\<open>updateUnits\<close> keeps the number of units and treats the
  unit at index \<open>i\<close> as follows, where \<open>separated\<close> is that unit after the separation push
  of its turn (same id, target and flag, position moved by \<open>sep * dt\<close>) and \<open>remaining\<close> is
  its horizontal distance to the target. With no target the unit is left as separated
  and emits nothing. With a target closer than \<open>0.12\<close> the target is cleared, the flag
  \<^verbatim>\<open>hadTarget\<close> is reset, and \<^verbatim>\<open>unit:arrived\<close> with its id is handed to the host exactly when
  the flag was set. With a target farther away the unit moves towards it by \<open>speed * dt\<close>.
  The events of the call are exactly these arrivals, in the order of the units. A move
  command sets the flag together with the target of every selected unit, and the flag is
  set whenever a unit has a target (for the initial roster, and kept by move commands
  and ticks); hence, when the host listens, every unit whose target is within the arrival
  distance emits the arrival event, also on the first tick after the assignment.
\<close>

theorem C5_arrival_amended:
  "length (fst (updateUnits e dt us)) = length us
   \<and> (\<forall>i. separated e dt us i =
          (us ! i) \<lparr> position := addScaledVector (position (us ! i))
                                    (separation (fst (updateUnits_upto e dt us i)) i) dt \<rparr>)
   \<and> (\<forall>i<length us. target (us ! i) = None \<longrightarrow>
          fst (updateUnits e dt us) ! i = separated e dt us i)
   \<and> (\<forall>i<length us. \<forall>tg. target (us ! i) = Some tg
          \<and> remaining tg (separated e dt us i) < 0.12 \<longrightarrow>
          fst (updateUnits e dt us) ! i
            = (separated e dt us i) \<lparr> target := None, hadTarget := False \<rparr>)
   \<and> (\<forall>i<length us. \<forall>tg. target (us ! i) = Some tg
          \<and> \<not> remaining tg (separated e dt us i) < 0.12 \<longrightarrow>
          fst (updateUnits e dt us) ! i
            = (separated e dt us i)
                \<lparr> position := addScaledVector (position (separated e dt us i))
                     (normalize3 (setY (sub3 tg (position (separated e dt us i))) 0))
                     (unit_speed (us ! i) * dt) \<rparr>)
   \<and> snd (updateUnits e dt us) =
        concat (map (\<lambda>i. case target (us ! i) of
                            None \<Rightarrow> []
                          | Some tg \<Rightarrow>
                              if remaining tg (separated e dt us i) < 0.12 \<and> hadTarget (us ! i)
                              then emit e (UnitArrived (unit_id (us ! i))
                                     (vx (position (separated e dt us i)))
                                     (vz (position (separated e dt us i))))
                              else [])
                  [0..<length us])
   \<and> (pickGround e (clientX ev) (clientY ev) = Some p
        \<and> 1 \<le> length (filter selected (units st)) \<longrightarrow>
        (\<forall>v \<in> set (units (fst (onContextMenu e ev st))).
           selected v \<longrightarrow> target v \<noteq> None \<and> hadTarget v))
   \<and> (list_all flag_set (units st) \<longrightarrow>
        list_all flag_set (units (fst (onContextMenu e ev st))))
   \<and> (list_all flag_set us \<longrightarrow> list_all flag_set (fst (updateUnits e dt us)))
   \<and> list_all flag_set initial_units
   \<and> (hasOnEvent e \<and> list_all flag_set us \<longrightarrow>
        (\<forall>i<length us. \<forall>tg. target (us ! i) = Some tg
           \<and> remaining tg (separated e dt us i) < 0.12 \<longrightarrow>
           UnitArrived (unit_id (us ! i)) (vx (position (separated e dt us i)))
             (vz (position (separated e dt us i))) \<in> set (snd (updateUnits e dt us))))"
proof (intro conjI allI impI ballI)
  show "length (fst (updateUnits e dt us)) = length us"
    by (rule updateUnits_length)
next
  fix i
  show "separated e dt us i =
          (us ! i) \<lparr> position := addScaledVector (position (us ! i))
                                    (separation (fst (updateUnits_upto e dt us i)) i) dt \<rparr>"
    by (rule separated_eq)
next
  fix i assume i: "i < length us" and n: "target (us ! i) = None"
  have "target (separated e dt us i) = None"
    using n by (simp add: separated_fields)
  then show "fst (updateUnits e dt us) ! i = separated e dt us i"
    by (simp add: updateUnits_nth [OF i] seek_no_target)
next
  fix i tg
  assume i: "i < length us"
    and a: "target (us ! i) = Some tg \<and> remaining tg (separated e dt us i) < 0.12"
  have "target (separated e dt us i) = Some tg"
    using a by (simp add: separated_fields)
  then show "fst (updateUnits e dt us) ! i
            = (separated e dt us i) \<lparr> target := None, hadTarget := False \<rparr>"
    using a by (simp add: updateUnits_nth [OF i] seek_fst_arrive)
next
  fix i tg
  assume i: "i < length us"
    and a: "target (us ! i) = Some tg \<and> \<not> remaining tg (separated e dt us i) < 0.12"
  have "target (separated e dt us i) = Some tg"
    using a by (simp add: separated_fields)
  then show "fst (updateUnits e dt us) ! i
            = (separated e dt us i)
                \<lparr> position := addScaledVector (position (separated e dt us i))
                     (normalize3 (setY (sub3 tg (position (separated e dt us i))) 0))
                     (unit_speed (us ! i) * dt) \<rparr>"
    using a by (simp add: updateUnits_nth [OF i] seek_fst_travel separated_fields)
next
  show "snd (updateUnits e dt us) =
        concat (map (\<lambda>i. case target (us ! i) of
                            None \<Rightarrow> []
                          | Some tg \<Rightarrow>
                              if remaining tg (separated e dt us i) < 0.12 \<and> hadTarget (us ! i)
                              then emit e (UnitArrived (unit_id (us ! i))
                                     (vx (position (separated e dt us i)))
                                     (vz (position (separated e dt us i))))
                              else [])
                  [0..<length us])"
    by (simp only: updateUnits_events_eq seek_separated_snd)
next
  fix v
  assume c: "pickGround e (clientX ev) (clientY ev) = Some p
        \<and> 1 \<le> length (filter selected (units st))"
    and v: "v \<in> set (units (fst (onContextMenu e ev st)))" and s: "selected v"
  have "units (fst (onContextMenu e ev st)) =
          assign_targets p (formationOffsets (length (filter selected (units st)))) 0 (units st)"
    using c by (simp add: onContextMenu_command)
  then have "hadTarget v \<and> target v \<noteq> None"
    using v s assign_targets_hadTarget by simp
  then show "target v \<noteq> None" and "hadTarget v" by simp_all
next
  assume "list_all flag_set (units st)"
  then show "list_all flag_set (units (fst (onContextMenu e ev st)))"
    by (rule onContextMenu_flag_set)
next
  assume "list_all flag_set us"
  then show "list_all flag_set (fst (updateUnits e dt us))"
    by (rule updateUnits_flag_set)
next
  show "list_all flag_set initial_units"
    by (rule initial_units_flag_set)
next
  fix i tg
  assume h: "hasOnEvent e \<and> list_all flag_set us" and i: "i < length us"
    and a: "target (us ! i) = Some tg \<and> remaining tg (separated e dt us i) < 0.12"
  have "flag_set (us ! i)"
    using h i by (simp add: list_all_length)
  then have "hadTarget (us ! i)"
    using a by (simp add: flag_set_def)
  then show "UnitArrived (unit_id (us ! i)) (vx (position (separated e dt us i)))
             (vz (position (separated e dt us i))) \<in> set (snd (updateUnits e dt us))"
    using h i a by (simp add: updateUnits_arrival_event)
qed

lemma addScaledVector_zero: "addScaledVector p (Vector3 0 0 0) dt = p"
  by (cases p) (simp add: addScaledVector_def)

lemma separated_single: "separated e dt [u] 0 = u"
  by (simp add: separated_eq updateUnits_upto_def separation_def addScaledVector_zero)

lemma singleton_nth:
  assumes "length xs = length [y]" and "xs ! 0 = y"
  shows "xs = [y]"
  using assms by (cases xs) simp_all

lemma remaining_commanded: "remaining (Vector3 0 0 0) commanded_unit < 0.12"
  by (simp add: remaining_def commanded_unit_def select_unit_def spawnUnit_def setY_def sub3_def
        length3_def)

lemma remaining_travelling: "remaining (Vector3 3 0 4) travelling_unit = 5"
proof -
  have "sqrt 25 = 5"
    by (rule real_sqrt_unique) simp_all
  then show ?thesis
    by (simp add: remaining_def travelling_unit_def spawnUnit_def setY_def sub3_def length3_def)
qed

theorem C5_arrival_amended_witness:
  "target ([commanded_unit] ! 0) = Some (Vector3 0 0 0)
   \<and> remaining (Vector3 0 0 0) (separated arrival_env (1 / 60) [commanded_unit] 0) < 0.12
   \<and> fst (updateUnits arrival_env (1 / 60) [commanded_unit])
       = [commanded_unit \<lparr> target := None, hadTarget := False \<rparr>]
   \<and> snd (updateUnits arrival_env (1 / 60) [commanded_unit]) = [UnitArrived 1 0 0]
   \<and> UnitArrived 1 0 0 \<in> set (snd (updateUnits arrival_env (1 / 60) [commanded_unit]))
   \<and> target ([idle_unit] ! 0) = None
   \<and> updateUnits arrival_env (1 / 60) [idle_unit] = ([idle_unit], [])
   \<and> target ([travelling_unit] ! 0) = Some (Vector3 3 0 4)
   \<and> \<not> remaining (Vector3 3 0 4) (separated arrival_env (1 / 60) [travelling_unit] 0) < 0.12
   \<and> fst (updateUnits arrival_env (1 / 60) [travelling_unit])
       = [travelling_unit \<lparr> position := Vector3 0.06 0.5 0.08 \<rparr>]
   \<and> snd (updateUnits arrival_env (1 / 60) [travelling_unit]) = []
   \<and> pickGround arrival_env (clientX fixture_rightclick) (clientY fixture_rightclick)
       = Some (Vector3 0 0 0)
   \<and> 1 \<le> length (filter selected (units arrival_game))
   \<and> commanded_unit \<in> set (units (fst (onContextMenu arrival_env fixture_rightclick arrival_game)))
   \<and> selected commanded_unit \<and> hadTarget commanded_unit
   \<and> hasOnEvent arrival_env
   \<and> list_all flag_set (units arrival_game)
   \<and> list_all flag_set (units (fst (onContextMenu arrival_env fixture_rightclick arrival_game)))
   \<and> list_all flag_set [commanded_unit]
   \<and> list_all flag_set (fst (updateUnits arrival_env (1 / 60) [commanded_unit]))"
proof -
  note tc = C5_arrival_amended [of arrival_env "1 / 60" "[commanded_unit]" fixture_rightclick
      "Vector3 0 0 0" arrival_game]
  note ti = C5_arrival_amended [of arrival_env "1 / 60" "[idle_unit]" fixture_rightclick
      "Vector3 0 0 0" arrival_game]
  note tt = C5_arrival_amended [of arrival_env "1 / 60" "[travelling_unit]" fixture_rightclick
      "Vector3 0 0 0" arrival_game]
  have f: "hadTarget commanded_unit" "selected commanded_unit" "unit_id commanded_unit = 1"
    "position commanded_unit = Vector3 0 0.5 0" "target commanded_unit = Some (Vector3 0 0 0)"
    by (simp_all add: commanded_unit_def select_unit_def spawnUnit_def)
  have h: "hasOnEvent arrival_env"
    by (simp add: arrival_env_def)
  have c1: "target ([commanded_unit] ! 0) = Some (Vector3 0 0 0)"
    using f by simp
  have c2: "remaining (Vector3 0 0 0) (separated arrival_env (1 / 60) [commanded_unit] 0) < 0.12"
    using remaining_commanded by (simp only: separated_single)
  have "fst (updateUnits arrival_env (1 / 60) [commanded_unit]) ! 0
          = (separated arrival_env (1 / 60) [commanded_unit] 0) \<lparr> target := None, hadTarget := False \<rparr>"
    using tc c1 c2 by simp
  then have c3n: "fst (updateUnits arrival_env (1 / 60) [commanded_unit]) ! 0
          = commanded_unit \<lparr> target := None, hadTarget := False \<rparr>"
    by (simp only: separated_single)
  have c3l: "length (fst (updateUnits arrival_env (1 / 60) [commanded_unit]))
          = length [commanded_unit \<lparr> target := None, hadTarget := False \<rparr>]"
    using tc by simp
  have c3: "fst (updateUnits arrival_env (1 / 60) [commanded_unit])
       = [commanded_unit \<lparr> target := None, hadTarget := False \<rparr>]"
    using c3l c3n by (rule singleton_nth)
  have "snd (updateUnits arrival_env (1 / 60) [commanded_unit]) =
        concat (map (\<lambda>i. case target ([commanded_unit] ! i) of
                            None \<Rightarrow> []
                          | Some tg \<Rightarrow>
                              if remaining tg (separated arrival_env (1 / 60) [commanded_unit] i) < 0.12
                                 \<and> hadTarget ([commanded_unit] ! i)
                              then emit arrival_env (UnitArrived (unit_id ([commanded_unit] ! i))
                                     (vx (position (separated arrival_env (1 / 60) [commanded_unit] i)))
                                     (vz (position (separated arrival_env (1 / 60) [commanded_unit] i))))
                              else [])
                  [0..<length [commanded_unit]])"
    using tc by blast
  then have c4: "snd (updateUnits arrival_env (1 / 60) [commanded_unit]) = [UnitArrived 1 0 0]"
    using f h remaining_commanded by (simp add: separated_single emit_def)
  have c5: "UnitArrived 1 0 0 \<in> set (snd (updateUnits arrival_env (1 / 60) [commanded_unit]))"
    by (simp add: c4)
  have i1: "target ([idle_unit] ! 0) = None"
    by (simp add: idle_unit_def spawnUnit_def)
  have "fst (updateUnits arrival_env (1 / 60) [idle_unit]) ! 0
          = separated arrival_env (1 / 60) [idle_unit] 0"
    using ti i1 by simp
  then have i2n: "fst (updateUnits arrival_env (1 / 60) [idle_unit]) ! 0 = idle_unit"
    by (simp only: separated_single)
  have i2l: "length (fst (updateUnits arrival_env (1 / 60) [idle_unit])) = length [idle_unit]"
    using ti by simp
  have i2: "fst (updateUnits arrival_env (1 / 60) [idle_unit]) = [idle_unit]"
    using i2l i2n by (rule singleton_nth)
  have "snd (updateUnits arrival_env (1 / 60) [idle_unit]) =
        concat (map (\<lambda>i. case target ([idle_unit] ! i) of
                            None \<Rightarrow> []
                          | Some tg \<Rightarrow>
                              if remaining tg (separated arrival_env (1 / 60) [idle_unit] i) < 0.12
                                 \<and> hadTarget ([idle_unit] ! i)
                              then emit arrival_env (UnitArrived (unit_id ([idle_unit] ! i))
                                     (vx (position (separated arrival_env (1 / 60) [idle_unit] i)))
                                     (vz (position (separated arrival_env (1 / 60) [idle_unit] i))))
                              else [])
                  [0..<length [idle_unit]])"
    using ti by blast
  then have i3: "snd (updateUnits arrival_env (1 / 60) [idle_unit]) = []"
    using i1 by simp
  have i4: "updateUnits arrival_env (1 / 60) [idle_unit] = ([idle_unit], [])"
    using i2 i3 by (simp add: prod_eq_iff)
  have g: "target travelling_unit = Some (Vector3 3 0 4)" "unit_speed travelling_unit = 6"
    "position travelling_unit = Vector3 0 0.5 0"
    by (simp_all add: travelling_unit_def spawnUnit_def)
  have t1: "target ([travelling_unit] ! 0) = Some (Vector3 3 0 4)"
    using g by simp
  have t2: "\<not> remaining (Vector3 3 0 4) (separated arrival_env (1 / 60) [travelling_unit] 0) < 0.12"
    by (simp add: separated_single remaining_travelling)
  have "fst (updateUnits arrival_env (1 / 60) [travelling_unit]) ! 0
          = (separated arrival_env (1 / 60) [travelling_unit] 0)
                \<lparr> position := addScaledVector (position (separated arrival_env (1 / 60) [travelling_unit] 0))
                     (normalize3 (setY (sub3 (Vector3 3 0 4)
                        (position (separated arrival_env (1 / 60) [travelling_unit] 0))) 0))
                     (unit_speed ([travelling_unit] ! 0) * (1 / 60)) \<rparr>"
    using tt t1 t2 by simp
  then have "fst (updateUnits arrival_env (1 / 60) [travelling_unit]) ! 0
          = travelling_unit
                \<lparr> position := addScaledVector (position travelling_unit)
                     (normalize3 (setY (sub3 (Vector3 3 0 4) (position travelling_unit)) 0))
                     (unit_speed travelling_unit * (1 / 60)) \<rparr>"
    by (simp add: separated_single)
  moreover have "length3 (setY (sub3 (Vector3 3 0 4) (position travelling_unit)) 0) = 5"
    using remaining_travelling by (simp add: remaining_def)
  ultimately have t3n: "fst (updateUnits arrival_env (1 / 60) [travelling_unit]) ! 0
          = travelling_unit \<lparr> position := Vector3 0.06 0.5 0.08 \<rparr>"
    using g by (simp add: normalize3_def Let_def multiplyScalar_def addScaledVector_def setY_def sub3_def)
  have t3l: "length (fst (updateUnits arrival_env (1 / 60) [travelling_unit]))
          = length [travelling_unit \<lparr> position := Vector3 0.06 0.5 0.08 \<rparr>]"
    using tt by simp
  have t3: "fst (updateUnits arrival_env (1 / 60) [travelling_unit])
       = [travelling_unit \<lparr> position := Vector3 0.06 0.5 0.08 \<rparr>]"
    using t3l t3n by (rule singleton_nth)
  have "snd (updateUnits arrival_env (1 / 60) [travelling_unit]) =
        concat (map (\<lambda>i. case target ([travelling_unit] ! i) of
                            None \<Rightarrow> []
                          | Some tg \<Rightarrow>
                              if remaining tg (separated arrival_env (1 / 60) [travelling_unit] i) < 0.12
                                 \<and> hadTarget ([travelling_unit] ! i)
                              then emit arrival_env (UnitArrived (unit_id ([travelling_unit] ! i))
                                     (vx (position (separated arrival_env (1 / 60) [travelling_unit] i)))
                                     (vz (position (separated arrival_env (1 / 60) [travelling_unit] i))))
                              else [])
                  [0..<length [travelling_unit]])"
    using tt by blast
  then have t4: "snd (updateUnits arrival_env (1 / 60) [travelling_unit]) = []"
    using g by (simp add: separated_single remaining_travelling)
  have p: "pickGround arrival_env (clientX fixture_rightclick) (clientY fixture_rightclick)
       = Some (Vector3 0 0 0)"
    by (simp add: arrival_env_def)
  have n: "1 \<le> length (filter selected (units arrival_game))"
    by (simp add: arrival_game_def select_unit_def)
  have m: "commanded_unit \<in> set (units (fst (onContextMenu arrival_env fixture_rightclick arrival_game)))"
    by (simp add: arrival_commanded commanded_unit_def)
  have l0: "list_all flag_set (units arrival_game)"
    by (simp add: arrival_game_def flag_set_def select_unit_def spawnUnit_def)
  have l1: "list_all flag_set (units (fst (onContextMenu arrival_env fixture_rightclick arrival_game)))"
    using tc l0 by blast
  have l2: "list_all flag_set [commanded_unit]"
    by (simp add: flag_set_def f)
  have l3: "list_all flag_set (fst (updateUnits arrival_env (1 / 60) [commanded_unit]))"
    using tc l2 by blast
  show ?thesis
    using c1 c2 c3 c4 c5 i1 i4 t1 t2 t3 t4 p n m f(1) f(2) h l0 l1 l2 l3 by blast
qed

end
